theory Spec2Isabelle
  imports Main
begin

section \<open>Strings and the regular expressions of hazardAnalysisComplete\<close>

text \<open>
  A description is a list of code units. The module's patterns are ASCII, and
  under the \<open>i\<close> flag (without \<open>u\<close>) a code unit of 128 or more never matches an ASCII
  pattern character, so canonicalisation only has to fold the ASCII lower-case letters.
  The classes are those of ECMAScript on the code units a \<open>char\<close> holds:
  \<open>\w\<close> is \<open>[A-Za-z0-9_]\<close>, \<open>\s\<close> holds TAB, LF, VT, FF, CR, SPACE and NBSP (160).
\<close>

definition isWordChar :: "char \<Rightarrow> bool" where
  "isWordChar c =
     (let n = (of_char c :: nat)
      in (48 \<le> n \<and> n \<le> 57) \<or> (65 \<le> n \<and> n \<le> 90) \<or> n = 95 \<or> (97 \<le> n \<and> n \<le> 122))"

definition isSpace :: "char \<Rightarrow> bool" where
  "isSpace c =
     (let n = (of_char c :: nat)
      in (9 \<le> n \<and> n \<le> 13) \<or> n = 32 \<or> n = 160)"

definition canonicalize :: "char \<Rightarrow> char" where
  "canonicalize c =
     (let n = (of_char c :: nat)
      in if 97 \<le> n \<and> n \<le> 122 then char_of (n - 32) else c)"

datatype charclass = AnyChar | NonWord | Space | NonSpace | Asterisk | GreaterThan

fun inClass :: "charclass \<Rightarrow> char \<Rightarrow> bool" where
  "inClass AnyChar c = True"
| "inClass NonWord c = (\<not> isWordChar c)"
| "inClass Space c = isSpace c"
| "inClass NonSpace c = (\<not> isSpace c)"
| "inClass Asterisk c = (c = CHR ''*'')"
| "inClass GreaterThan c = (c = CHR ''>'')"

text \<open>
  A pattern is a sequence of items: a literal (compared case-insensitively), a
  quantified character class, or a mark at a parenthesis of capture group 1.
  \<open>LazyStar\<close> is the rest of a \<open>+?\<close> after its first character.
\<close>

datatype item =
    Lit string
  | Opt charclass
  | Star charclass
  | Plus charclass
  | LazyPlus charclass
  | LazyStar charclass
  | Mark

definition ciPrefix :: "string \<Rightarrow> string \<Rightarrow> bool" where
  "ciPrefix l s =
     (length l \<le> length s \<and> map canonicalize (take (length l) s) = map canonicalize l)"

text \<open>
  The backtracking matcher, anchored at the head of the string. Greedy quantifiers try
  the longer match first, lazy ones the shorter. A success gives the lengths of the
  text that remained at each mark, and the length that remains after the match.
\<close>

fun matchSeq :: "item list \<Rightarrow> string \<Rightarrow> (nat list \<times> nat) option" where
  "matchSeq [] s = Some ([], length s)"
| "matchSeq (Lit l # r) s =
     (if ciPrefix l s then matchSeq r (drop (length l) s) else None)"
| "matchSeq (Mark # r) s =
     (case matchSeq r s of None \<Rightarrow> None | Some (ms, e) \<Rightarrow> Some (length s # ms, e))"
| "matchSeq (Opt c # r) [] = matchSeq r []"
| "matchSeq (Opt c # r) (x # xs) =
     (if inClass c x
      then (case matchSeq r xs of Some res \<Rightarrow> Some res | None \<Rightarrow> matchSeq r (x # xs))
      else matchSeq r (x # xs))"
| "matchSeq (Star c # r) [] = matchSeq r []"
| "matchSeq (Star c # r) (x # xs) =
     (if inClass c x
      then (case matchSeq (Star c # r) xs of
              Some res \<Rightarrow> Some res
            | None \<Rightarrow> matchSeq r (x # xs))
      else matchSeq r (x # xs))"
| "matchSeq (Plus c # r) [] = None"
| "matchSeq (Plus c # r) (x # xs) =
     (if inClass c x then matchSeq (Star c # r) xs else None)"
| "matchSeq (LazyPlus c # r) [] = None"
| "matchSeq (LazyPlus c # r) (x # xs) =
     (if inClass c x then matchSeq (LazyStar c # r) xs else None)"
| "matchSeq (LazyStar c # r) [] = matchSeq r []"
| "matchSeq (LazyStar c # r) (x # xs) =
     (case matchSeq r (x # xs) of
        Some res \<Rightarrow> Some res
      | None \<Rightarrow> (if inClass c x then matchSeq (LazyStar c # r) xs else None))"

text \<open>A regular expression is a list of alternatives, tried in order.\<close>

type_synonym regex = "item list list"

fun matchAt :: "regex \<Rightarrow> string \<Rightarrow> (nat list \<times> nat) option" where
  "matchAt [] s = None"
| "matchAt (a # as) s =
     (case matchSeq a s of Some res \<Rightarrow> Some res | None \<Rightarrow> matchAt as s)"

text \<open>The text of capture group 1 of a match at the head of \<open>s\<close>.\<close>

fun group1 :: "string \<Rightarrow> nat list \<Rightarrow> string" where
  "group1 s (a # b # ms) = take (a - b) (drop (length s - a) s)"
| "group1 s ms = []"

text \<open>
  \<open>String.prototype.match\<close> with a global pattern: every match, left to right, the
  search resuming where the previous match ended (one further after an empty match).
\<close>

function allMatches :: "regex \<Rightarrow> string \<Rightarrow> string list" where
  "allMatches R s =
     (case matchAt R s of
        None \<Rightarrow> (case s of [] \<Rightarrow> [] | x # xs \<Rightarrow> allMatches R xs)
      | Some (ms, e) \<Rightarrow>
          (if length s - e = 0
           then (case s of [] \<Rightarrow> [[]] | x # xs \<Rightarrow> [] # allMatches R xs)
           else take (length s - e) s # allMatches R (drop (length s - e) s)))"
  by pat_completeness auto
termination
  by (relation "measure (\<lambda>(R, s). length s)") auto

definition jsMatch :: "regex \<Rightarrow> string \<Rightarrow> string list option" where
  "jsMatch R s = (case allMatches R s of [] \<Rightarrow> None | ms \<Rightarrow> Some ms)"

text \<open>\<open>Array.prototype.toString\<close>: the elements joined by commas.\<close>

fun arrayToString :: "string list \<Rightarrow> string" where
  "arrayToString [] = []"
| "arrayToString [x] = x"
| "arrayToString (x # y # ys) = x @ '','' @ arrayToString (y # ys)"

text \<open>
  \<open>String.prototype.replace\<close> with a global pattern. The module uses two replacement
  texts: \<open>'$1'\<close> (capture group 1) and the empty string.
\<close>

datatype replacement = Group1 | Nothing

fun substitute :: "replacement \<Rightarrow> string \<Rightarrow> nat list \<Rightarrow> string" where
  "substitute Group1 s ms = group1 s ms"
| "substitute Nothing s ms = []"

function replaceAll :: "regex \<Rightarrow> replacement \<Rightarrow> string \<Rightarrow> string" where
  "replaceAll R rep s =
     (case matchAt R s of
        None \<Rightarrow> (case s of [] \<Rightarrow> [] | x # xs \<Rightarrow> x # replaceAll R rep xs)
      | Some (ms, e) \<Rightarrow>
          (if length s - e = 0
           then substitute rep s ms @ (case s of [] \<Rightarrow> [] | x # xs \<Rightarrow> x # replaceAll R rep xs)
           else substitute rep s ms @ replaceAll R rep (drop (length s - e) s)))"
  by pat_completeness auto
termination
  by (relation "measure (\<lambda>(R, rep, s). length s)") auto

text \<open>\<open>RegExp.prototype.test\<close> of a pattern without the global flag.\<close>

fun testRegex :: "regex \<Rightarrow> string \<Rightarrow> bool" where
  "testRegex R [] = (matchAt R [] \<noteq> None)"
| "testRegex R (x # xs) = (matchAt R (x # xs) \<noteq> None \<or> testRegex R xs)"

text \<open>The patterns of \<open>hazardAnalysisComplete\<close>, as the source writes them.\<close>

definition financialRegex :: regex where
  "financialRegex =
     [[Lit ''Financial:'', Opt Asterisk, Mark, LazyPlus AnyChar, Opt GreaterThan, Mark,
       Star NonWord, Lit ''Legal/Regulatory'']]"

definition legalRegex :: regex where
  "legalRegex =
     [[Lit ''Legal/Regulatory:'', Opt Asterisk, Mark, LazyPlus AnyChar, Opt GreaterThan, Mark,
       Star NonWord, Lit ''Data Integrity'']]"

definition dataRegex :: regex where
  "dataRegex =
     [[Lit ''Data Integrity:'', Opt Asterisk, Mark, LazyPlus AnyChar, Opt GreaterThan, Mark,
       Star NonWord, Lit ''Patient Safety'']]"

definition patientRegex :: regex where
  "patientRegex =
     [[Lit ''Patient Safety:'', Opt Asterisk, Mark, LazyPlus AnyChar, Opt GreaterThan, Mark,
       Star NonWord, Lit ''CyberSecurity/Information Security'']]"

definition cyberSecurityRegex :: regex where
  "cyberSecurityRegex =
     [[Lit ''CyberSecurity/Information Security:'', Mark, Plus AnyChar, Mark]]"

definition yesNoRegex :: regex where
  "yesNoRegex =
     [[Star Space, Lit ''<yes or no. if yes, explain why>''],
      [Lit ''<yes/no>'', Star Space]]"

definition fillCheckRegex :: regex where
  "fillCheckRegex = [[Mark, Plus NonSpace, Mark]]"

definition engineerRegex :: regex where
  "engineerRegex = [[Star Asterisk, Star Space, Lit ''Engineer'', Plus AnyChar]]"

section \<open>Issues, audit details and collaborators\<close>

text \<open>
  The fields of an issue that the module reads itself. \<open>resolution\<close> is the name of
  \<open>fields.resolution\<close>, \<open>None\<close> where the tracker gives \<open>null\<close> (an unresolved
  issue); \<open>description\<close> is \<open>None\<close> where the tracker gives \<open>null\<close>. Everything else
  of an issue is read by the collaborators only, which get the whole issue.
\<close>

record issuelink =
  linkTypeName :: string
  linkTarget :: string

text \<open>
  What \<open>new Date(v)\<close> makes of the resolution date field: \<open>null\<close> gives time value 0,
  a date string its time value in milliseconds, anything else an invalid date (NaN).
\<close>

datatype datefield = NullDate | DateTime int | NotADate

record issue =
  key :: string
  resolutiondate :: datefield
  resolution :: "string option"
  description :: "string option"
  issuelinks :: "issuelink list"

fun timeValue :: "datefield \<Rightarrow> int option" where
  "timeValue NullDate = Some 0"
| "timeValue (DateTime t) = Some t"
| "timeValue NotADate = None"

text \<open>\<open>new Date("2019-04-22")\<close>: midnight UTC of April 22nd, 2019.\<close>

definition cutoffTime :: int where
  "cutoffTime = 1555891200000"

text \<open>\<open>resolutionDate < new Date("2019-04-22")\<close>; a comparison with NaN is false.\<close>

definition resolvedBeforeCutoff :: "issue \<Rightarrow> bool" where
  "resolvedBeforeCutoff i =
     (case timeValue (resolutiondate i) of None \<Rightarrow> False | Some t \<Rightarrow> t < cutoffTime)"

text \<open>
  An \<open>AuditDetails\<close> object. The class is required from \<open>../AuditDetails\<close>; the module
  constructs objects, assigns \<open>auditPassing\<close> and \<open>auditDetails\<close>, and calls
  \<open>addAuditResults\<close>. A property is \<open>None\<close> until the module assigns it.
\<close>

datatype auditdetails =
  AuditDetails (auditName: string) (auditIssue: issue) (auditPassing: "bool option")
    (auditDetails: "string option") (auditResults: "auditdetails list")

definition newAuditDetails :: "string \<Rightarrow> issue \<Rightarrow> auditdetails" where
  "newAuditDetails n i = AuditDetails n i None None []"

fun setPassing :: "bool \<Rightarrow> auditdetails \<Rightarrow> auditdetails" where
  "setPassing b (AuditDetails n i p d rs) = AuditDetails n i (Some b) d rs"

fun setDetails :: "string \<Rightarrow> auditdetails \<Rightarrow> auditdetails" where
  "setDetails t (AuditDetails n i p d rs) = AuditDetails n i p (Some t) rs"

text \<open>
  Modelled from the spec: the truth value of \<open>auditPassing\<close> on an object whose flag
  the module never assigned. The constructor is not in the sources; the spec calls the
  result of the ignore-label branch, which only gets its text, "pass-shaped" and the
  cleanse result "non-failing", so an unassigned flag reads as passing.
\<close>

definition isPassing :: "auditdetails \<Rightarrow> bool" where
  "isPassing a = (auditPassing a \<noteq> Some False)"

definition detailText :: "auditdetails \<Rightarrow> string" where
  "detailText a = (case auditDetails a of None \<Rightarrow> [] | Some t \<Rightarrow> t)"

text \<open>
  Modelled from the spec: \<open>AuditDetails.addAuditResults\<close>, which is not in the sources.
  The spec: results "compose into an aggregate AuditResult by: concatenating detail text
  of all failing members (quoted block), and the aggregate passes iff every member
  passes". The argument is one result or an array of results; both are a list here.
\<close>

fun addAuditResults :: "auditdetails list \<Rightarrow> auditdetails \<Rightarrow> auditdetails" where
  "addAuditResults new (AuditDetails n i p d rs) =
     AuditDetails n i
       (Some (list_all isPassing (rs @ new)))
       (Some (''{quote}'' @ concat (map detailText (filter (\<lambda>a. \<not> isPassing a) (rs @ new)))
              @ ''{quote}''))
       (rs @ new)"

datatype question = Financial | LegalRegulatory | DataIntegrity | PatientSafety | CyberSecurity

text \<open>
  The calls the module makes that a run can be observed by: every awaited collaborator
  call, and every \<open>descriptionBody.match\<close> of a question's pattern.
\<close>

datatype call =
    PostIssueAuditFailureComment issue auditdetails bool
  | RemoveIssueAuditFailureComment issue auditdetails
  | RemoveIssueAuditFailureCommentByName issue string
  | HandlePassFailAuditResults issue auditdetails
  | GetIssueFromLink issuelink "string list"
  | SubTaskClosed issue
  | IsAssigneeIndicated issue
  | MatchDescription issue question

text \<open>
  The collaborators, none of which is in the sources: what the module requires as
  \<open>jiraHelpers\<close>, \<open>auditHelpers\<close>, \<open>subTaskAudits\<close>, \<open>commonAudits\<close> and the constants.
  \<open>rejects\<close> says which asynchronous calls fail.
\<close>

record collaborators =
  HAZARD_ANALYSIS :: string
  IGNORE_HAZARD_ANALYSIS :: string
  DEFAULT_SUBTASK_FIELDS :: "string list"
  getSubTaskByName :: "issue \<Rightarrow> string \<Rightarrow> issue option"
  issueContainsAnyLabel :: "issue \<Rightarrow> string list \<Rightarrow> bool"
  issueHasNoWorkNeededResolution :: "issue \<Rightarrow> bool"
  isSubtaskLinkOfType :: "issuelink \<Rightarrow> string \<Rightarrow> bool"
  getIssueFromLink :: "issuelink \<Rightarrow> string list \<Rightarrow> issue"
  findPlusOneComments :: "issue \<Rightarrow> string list"
  generateAuditCommentText :: "auditdetails \<Rightarrow> string"
  subTaskClosed :: "issue \<Rightarrow> auditdetails"
  isAssigneeIndicated :: "issue \<Rightarrow> auditdetails"
  rejects :: "call \<Rightarrow> bool"

text \<open>
  A run either resolves with a value or never settles: every function here but
  \<open>cleanseSubTaskAudits\<close> is \<open>new Promise(async (resolve, reject) => ...)\<close>, whose promise
  stays pending when the executor throws or an awaited call rejects. With the outcome
  comes the list of calls made, in order.
\<close>

datatype 'a outcome = Resolved 'a | Unsettled

type_synonym 'a run = "'a outcome \<times> call list"

definition ret :: "'a \<Rightarrow> 'a run" where
  "ret a = (Resolved a, [])"

definition bnd :: "'a run \<Rightarrow> ('a \<Rightarrow> 'b run) \<Rightarrow> 'b run" where
  "bnd m f =
     (case m of
        (Unsettled, t) \<Rightarrow> (Unsettled, t)
      | (Resolved a, t) \<Rightarrow> (case f a of (r, t') \<Rightarrow> (r, t @ t')))"

definition await :: "collaborators \<Rightarrow> call \<Rightarrow> 'a \<Rightarrow> 'a run" where
  "await env c v = (if rejects env c then (Unsettled, [c]) else (Resolved v, [c]))"

text \<open>A call that is made and not awaited: its failure does not stop the run.\<close>

definition fire :: "call \<Rightarrow> unit run" where
  "fire c = (Resolved (), [c])"

definition templateLink :: string where
  "templateLink = ''https://jira2.cerner.com/browse/MPAGESCORE-30188''"

section \<open>The audits\<close>

subsection \<open>issueHasHazardAnalysisSubTask\<close>

definition subTaskRequiredDetails :: string where
  "subTaskRequiredDetails =
     ''A Hazard Analysis sub-task is required for all stories; please clone Jira stories from the [Story and Defect template|''
     @ templateLink @ ''].''"

definition issueHasHazardAnalysisSubTask :: "collaborators \<Rightarrow> issue \<Rightarrow> auditdetails run" where
  "issueHasHazardAnalysisSubTask env issue =
     (let a = newAuditDetails ''Issue Requires A Hazard Analysis Sub-Task'' issue
      in case getSubTaskByName env issue (HAZARD_ANALYSIS env) of
           None \<Rightarrow>
             (let a' = setPassing False (setDetails subTaskRequiredDetails a)
              in await env (PostIssueAuditFailureComment issue a' False) a')
         | Some hazardAnalysisTask \<Rightarrow>
             (let a' = setPassing True
                         (setDetails ''Hazard Analysis sub-task is required and present'' a)
              in await env (RemoveIssueAuditFailureComment issue a') a'))"

subsection \<open>isNoWorkNeededResolutionValid\<close>

definition noWorkNeededInvalidDetails :: string where
  "noWorkNeededInvalidDetails =
     ''Hazard analysis is required for all stories.  It is not valid to close this sub-task as not needing any work.  If the ''
     @ ''hazard analysis has been created under another Hazard Analysis sub-task, please link directly to that sub-task via a _JIRA Issue_ link so it can be audited.''"

text \<open>
  \<open>None\<close> as the value is the source's \<open>resolve(null)\<close>. Reading \<open>.name\<close> of a
  \<open>null\<close> resolution throws, so the run never settles there.
\<close>

definition isNoWorkNeededResolutionValid ::
  "collaborators \<Rightarrow> issue \<Rightarrow> issue \<Rightarrow> auditdetails option run" where
  "isNoWorkNeededResolutionValid env parentIssue subTask =
     (let a = newAuditDetails ''Hazard Analysis No Work Needed Resolution Validation'' subTask
      in if \<not> issueHasNoWorkNeededResolution env subTask
         then await env (RemoveIssueAuditFailureComment subTask a) None
         else if issueHasNoWorkNeededResolution env parentIssue
         then (case resolution subTask of
                 None \<Rightarrow> (Unsettled, [])
               | Some sn \<Rightarrow>
                   (case resolution parentIssue of
                      None \<Rightarrow> (Unsettled, [])
                    | Some pn \<Rightarrow>
                        (let a' = setPassing True
                                    (setDetails
                                       (''Hazard analysis resolution of '' @ sn
                                        @ '' is valid since the parent issue was closed with a ''
                                        @ pn @ '' resolution.'') a)
                         in await env (RemoveIssueAuditFailureComment subTask a') (Some a'))))
         else (let a' = setPassing False (setDetails noWorkNeededInvalidDetails a)
               in await env (PostIssueAuditFailureComment subTask a' False) (Some a')))"

subsection \<open>hazardAnalysisComplete\<close>

fun questionRegex :: "question \<Rightarrow> regex" where
  "questionRegex Financial = financialRegex"
| "questionRegex LegalRegulatory = legalRegex"
| "questionRegex DataIntegrity = dataRegex"
| "questionRegex PatientSafety = patientRegex"
| "questionRegex CyberSecurity = cyberSecurityRegex"

text \<open>The name each question has in the template-mismatch text.\<close>

fun mismatchName :: "question \<Rightarrow> string" where
  "mismatchName Financial = ''Financial''"
| "mismatchName LegalRegulatory = ''Legal/Regulatory''"
| "mismatchName DataIntegrity = ''Data Integrity''"
| "mismatchName PatientSafety = ''Patient Safety''"
| "mismatchName CyberSecurity = ''CyberSecurity/Information''"

definition mismatchDetails :: "question \<Rightarrow> string" where
  "mismatchDetails q =
     mismatchName q
     @ '' description does not match expected description for Hazard Analysis. You can copy the description directly from the Perform Hazard Analysis \<newline>            sub-task found in the Story and Defect template; please clone Jira stories from the [Story and Defect template|''
     @ templateLink @ '']''"

text \<open>The name each question has in the must-be-answered text.\<close>

fun unansweredName :: "question \<Rightarrow> string" where
  "unansweredName Financial = ''financial''"
| "unansweredName LegalRegulatory = ''legal/regulatory''"
| "unansweredName DataIntegrity = ''data integrity''"
| "unansweredName PatientSafety = ''patient safety''"
| "unansweredName CyberSecurity = ''cybersecurity/information''"

definition unansweredDetails :: "question \<Rightarrow> string" where
  "unansweredDetails q =
     ''The '' @ unansweredName q @ '' question of the Hazard analysis must be answered.''"

text \<open>
  \<open>tempStr.toString().replace(regex, '$1').replace(yesNoRegex, "")\<close>; the last question
  also strips the trailing \<open>Engineer\<close> block before the placeholders.
\<close>

definition answerText :: "question \<Rightarrow> string list \<Rightarrow> string" where
  "answerText q tempStr =
     (let t = replaceAll (questionRegex q) Group1 (arrayToString tempStr);
          t' = (if q = CyberSecurity then replaceAll engineerRegex Nothing t else t)
      in replaceAll yesNoRegex Nothing t')"

text \<open>
  One of the five blocks of the source, which differ in the pattern and the two texts
  only (and the \<open>Engineer\<close> strip of the last): \<open>k\<close> is the code that follows the block.
\<close>

definition checkQuestion ::
  "collaborators \<Rightarrow> issue \<Rightarrow> auditdetails \<Rightarrow> string \<Rightarrow> question \<Rightarrow> auditdetails run
   \<Rightarrow> auditdetails run" where
  "checkQuestion env issue a descriptionBody q k =
     bnd (fire (MatchDescription issue q)) (\<lambda>_.
       case jsMatch (questionRegex q) descriptionBody of
         None \<Rightarrow> ret (setPassing False (setDetails (mismatchDetails q) a))
       | Some tempStr \<Rightarrow>
           if \<not> testRegex fillCheckRegex (answerText q tempStr)
           then (let a' = setPassing False (setDetails (unansweredDetails q) a)
                 in await env (PostIssueAuditFailureComment issue a' True) a')
           else k)"

definition hazardAnalysisComplete :: "collaborators \<Rightarrow> issue \<Rightarrow> auditdetails run" where
  "hazardAnalysisComplete env issue =
     (let a = newAuditDetails ''Hazard Analysis Completed'' issue
      in case description issue of
           None \<Rightarrow> (Unsettled, [])
         | Some descriptionBody \<Rightarrow>
             checkQuestion env issue a descriptionBody Financial
               (checkQuestion env issue a descriptionBody LegalRegulatory
                 (checkQuestion env issue a descriptionBody DataIntegrity
                   (checkQuestion env issue a descriptionBody PatientSafety
                     (checkQuestion env issue a descriptionBody CyberSecurity
                       (let a' = setPassing True
                                   (setDetails
                                      ''Hazard analysis has been completed for this sub-task.'' a)
                        in await env (RemoveIssueAuditFailureComment issue a') a'))))))"

subsection \<open>hazardAnalysisReviewed\<close>

definition hazardAnalysisReviewed :: "collaborators \<Rightarrow> issue \<Rightarrow> auditdetails run" where
  "hazardAnalysisReviewed env issue =
     (let a = newAuditDetails ''Hazard Analysis Reviewed'' issue
      in if length (findPlusOneComments env issue) = 0
         then (let a' = setPassing False
                          (setDetails
                             ''Hazard Analysis must receive a '+1' comment from a reviewer other than the author before the sub-task can be closed.''
                             a)
               in await env (PostIssueAuditFailureComment issue a' False) a')
         else (let a' = setPassing True
                          (setDetails
                             ''Hazard Analysis has received a '+1' comment from a reviewer other than the author.''
                             a)
               in await env (RemoveIssueAuditFailureComment issue a') a'))"

subsection \<open>cleanseSubTaskAudits\<close>

definition cleanseSubTaskAudits :: "collaborators \<Rightarrow> issue \<Rightarrow> auditdetails run" where
  "cleanseSubTaskAudits env issue =
     (let cleanseSubTask =
            setDetails ''All audit comments and labels will be removed from this sub-task''
              (newAuditDetails ''Hazard Analysis Sub-Task Cleanse'' issue)
      in case getSubTaskByName env issue (HAZARD_ANALYSIS env) of
           Some subTask \<Rightarrow>
             await env (HandlePassFailAuditResults subTask cleanseSubTask) cleanseSubTask
         | None \<Rightarrow>
             await env
               (RemoveIssueAuditFailureCommentByName issue
                  ''Issue Requires A Hazard Analysis Sub-Task'')
               cleanseSubTask)"

subsection \<open>runHazardAnalysisAudits\<close>

definition grandfatheredDetails :: string where
  "grandfatheredDetails =
     ''This audit is being ignored since the issue was resolved prior to the audit introduction date of April 22nd, 2019''"

text \<open>
  The links of a sub-task that \<open>isSubtaskLinkOfType\<close> takes for links to another
  Hazard Analysis sub-task (the source's \<open>subTaskLinks\<close>).
\<close>

definition subTaskLinks :: "collaborators \<Rightarrow> issue \<Rightarrow> issuelink list" where
  "subTaskLinks env subTask =
     filter (\<lambda>issueLink. isSubtaskLinkOfType env issueLink (HAZARD_ANALYSIS env))
       (issuelinks subTask)"

text \<open>The comment body built from the failing audits of a linked sub-task.\<close>

definition auditComment :: "collaborators \<Rightarrow> auditdetails list \<Rightarrow> string" where
  "auditComment env allAuditResults =
     ''\<newline>\<newline>''
     @ concat (map (\<lambda>audit. generateAuditCommentText env audit @ ''\<newline>\<newline>'')
                 (filter (\<lambda>audit. \<not> isPassing audit) allAuditResults))"

definition linkedFailingDetails :: "collaborators \<Rightarrow> auditdetails list \<Rightarrow> string" where
  "linkedFailingDetails env allAuditResults =
     ''The audit details below are currently failing for the linked sub-task and transitively causing this sub-task audit failure:\<newline>\<newline>{quote}''
     @ auditComment env allAuditResults @ ''{quote}''"

text \<open>The passing text has the two characters backslash and n where the failing one has a line break.\<close>

definition linkedPassingDetails :: "collaborators \<Rightarrow> auditdetails list \<Rightarrow> string" where
  "linkedPassingDetails env allAuditResults =
     ''All audits for the linked Hazard Analysis sub-task have passed successfully:''
     @ [CHR 0x5C, CHR ''n'', CHR 0x5C, CHR ''n''] @ ''{quote}''
     @ auditComment env allAuditResults @ ''{quote}''"

text \<open>
  The combined audit of a linked sub-task: the \<open>AuditDetails\<close> the source names
  \<open>"Linked Hazard Analysis Sub-Task Audit"\<close>, as it is when it is posted or cleared.
\<close>

definition linkedAudit :: "collaborators \<Rightarrow> issue \<Rightarrow> auditdetails list \<Rightarrow> auditdetails" where
  "linkedAudit env originalHazardSubTask allAuditResults =
     (let auditDetail = newAuditDetails ''Linked Hazard Analysis Sub-Task Audit'' originalHazardSubTask
      in if \<not> list_all isPassing allAuditResults
         then setPassing False (setDetails (linkedFailingDetails env allAuditResults) auditDetail)
         else setPassing True (setDetails (linkedPassingDetails env allAuditResults) auditDetail))"

text \<open>
  The core audits of the active sub-task, pushed onto \<open>allAuditResults\<close>: assignee,
  completeness and, when the completeness audit passes, the review.
\<close>

definition coreAudits ::
  "collaborators \<Rightarrow> issue \<Rightarrow> auditdetails list \<Rightarrow> auditdetails list run" where
  "coreAudits env defineHazardAnalysis allAuditResults =
     bnd (await env (IsAssigneeIndicated defineHazardAnalysis)
            (isAssigneeIndicated env defineHazardAnalysis)) (\<lambda>assignee.
     bnd (hazardAnalysisComplete env defineHazardAnalysis) (\<lambda>auditDetail.
       if isPassing auditDetail
       then bnd (hazardAnalysisReviewed env defineHazardAnalysis) (\<lambda>reviewed.
              ret (allAuditResults @ [assignee, auditDetail, reviewed]))
       else ret (allAuditResults @ [assignee, auditDetail])))"

text \<open>What follows the core audits when the audits ran on a linked sub-task.\<close>

definition finishLinked ::
  "collaborators \<Rightarrow> issue \<Rightarrow> auditdetails \<Rightarrow> auditdetails list \<Rightarrow> auditdetails run" where
  "finishLinked env originalHazardSubTask hazardAnalysisAuditDetails allAuditResults =
     (let auditDetail = linkedAudit env originalHazardSubTask allAuditResults;
          details = addAuditResults [auditDetail] hazardAnalysisAuditDetails
      in bnd (if \<not> list_all isPassing allAuditResults
              then await env (PostIssueAuditFailureComment originalHazardSubTask auditDetail True) ()
              else await env (RemoveIssueAuditFailureComment originalHazardSubTask auditDetail) ())
           (\<lambda>_. await env (HandlePassFailAuditResults originalHazardSubTask details) details))"

text \<open>What follows them when the sub-task has no link.\<close>

definition finishDirect ::
  "collaborators \<Rightarrow> issue \<Rightarrow> auditdetails \<Rightarrow> auditdetails list \<Rightarrow> auditdetails run" where
  "finishDirect env defineHazardAnalysis hazardAnalysisAuditDetails allAuditResults =
     bnd (await env
            (RemoveIssueAuditFailureCommentByName defineHazardAnalysis
               ''Linked Hazard Analysis Sub-Task Audit'') ())
       (\<lambda>_. let details = addAuditResults allAuditResults hazardAnalysisAuditDetails
             in await env (HandlePassFailAuditResults defineHazardAnalysis details) details)"

text \<open>
  Line 67 calls \<open>issueHasOneSubTaskLink\<close> as a plain identifier. The module neither
  defines nor requires that name (its helpers are reached through \<open>jiraHelpers\<close>,
  \<open>subTaskAudits\<close> and \<open>commonAudits\<close>), so reading it throws a \<open>ReferenceError\<close> inside
  the asynchronous executor: no call is made, and \<open>resolve\<close> is never reached.
\<close>

definition issueHasOneSubTaskLink :: "issue \<Rightarrow> auditdetails run" where
  "issueHasOneSubTaskLink defineHazardAnalysis = (Unsettled, [])"

text \<open>
  The source from the link check on, for a sub-task that exists and was not closed as
  no work needed.
\<close>

definition auditSubTask ::
  "collaborators \<Rightarrow> issue \<Rightarrow> auditdetails \<Rightarrow> auditdetails run" where
  "auditSubTask env defineHazardAnalysis hazardAnalysisAuditDetails =
     (case subTaskLinks env defineHazardAnalysis of
        link # links \<Rightarrow>
          bnd (issueHasOneSubTaskLink defineHazardAnalysis) (\<lambda>auditDetail.
            let details = addAuditResults [auditDetail] hazardAnalysisAuditDetails
            in if \<not> isPassing auditDetail
               then await env (HandlePassFailAuditResults defineHazardAnalysis details) details
               else
                 bnd (await env (GetIssueFromLink link (DEFAULT_SUBTASK_FIELDS env))
                        (getIssueFromLink env link (DEFAULT_SUBTASK_FIELDS env))) (\<lambda>linked.
                 bnd (await env (SubTaskClosed defineHazardAnalysis)
                        (subTaskClosed env defineHazardAnalysis)) (\<lambda>closed.
                 bnd (await env (IsAssigneeIndicated defineHazardAnalysis)
                        (isAssigneeIndicated env defineHazardAnalysis)) (\<lambda>assignee.
                 bnd (coreAudits env linked []) (\<lambda>allAuditResults.
                   finishLinked env defineHazardAnalysis
                     (addAuditResults [assignee] (addAuditResults [closed] details))
                     allAuditResults)))))
      | [] \<Rightarrow>
          bnd (await env (SubTaskClosed defineHazardAnalysis)
                 (subTaskClosed env defineHazardAnalysis)) (\<lambda>closed.
          bnd (coreAudits env defineHazardAnalysis [closed]) (\<lambda>allAuditResults.
            finishDirect env defineHazardAnalysis hazardAnalysisAuditDetails allAuditResults)))"

text \<open>
  \<open>getSubTaskByName\<close> is called again by \<open>issueHasHazardAnalysisSubTask\<close> and gives the
  same answer, so a passing existence audit comes with a sub-task; without one the
  source would go on to read the fields of \<open>undefined\<close> and throw.
\<close>

definition runHazardAnalysisAudits :: "collaborators \<Rightarrow> issue \<Rightarrow> auditdetails run" where
  "runHazardAnalysisAudits env issue =
     (let defineHazardAnalysis = getSubTaskByName env issue (HAZARD_ANALYSIS env);
          hazardAnalysisAuditDetails =
            newAuditDetails ''Hazard Analysis Sub-Task Audit''
              (case defineHazardAnalysis of Some subTask \<Rightarrow> subTask | None \<Rightarrow> issue)
      in if resolvedBeforeCutoff issue
         then ret (setDetails grandfatheredDetails (setPassing True hazardAnalysisAuditDetails))
         else if issueContainsAnyLabel env issue [IGNORE_HAZARD_ANALYSIS env]
         then bnd (cleanseSubTaskAudits env issue) (\<lambda>_.
                ret (setDetails ''Audit ignored'' hazardAnalysisAuditDetails))
         else
           bnd (issueHasHazardAnalysisSubTask env issue) (\<lambda>auditDetail.
             let details = addAuditResults [auditDetail] hazardAnalysisAuditDetails
             in if \<not> isPassing auditDetail then ret details
                else
                  (case defineHazardAnalysis of
                     None \<Rightarrow> (Unsettled, [])
                   | Some subTask \<Rightarrow>
                       bnd (isNoWorkNeededResolutionValid env issue subTask) (\<lambda>noWorkNeeded.
                         case noWorkNeeded of
                           Some auditDetail' \<Rightarrow>
                             (let details' = addAuditResults [auditDetail'] details
                              in bnd (fire (HandlePassFailAuditResults subTask details'))
                                   (\<lambda>_. ret details'))
                         | None \<Rightarrow> auditSubTask env subTask details))))"

section \<open>Notions the claims are stated with\<close>

text \<open>
  What a block of \<open>hazardAnalysisComplete\<close> finds for its question: the pattern does not
  match, or the text left of the match is blank, or there is an answer.
\<close>

datatype verdict = Mismatch | Unanswered | Answered

definition questionVerdict :: "question \<Rightarrow> string \<Rightarrow> verdict" where
  "questionVerdict q descriptionBody =
     (case jsMatch (questionRegex q) descriptionBody of
        None \<Rightarrow> Mismatch
      | Some tempStr \<Rightarrow>
          if \<not> testRegex fillCheckRegex (answerText q tempStr) then Unanswered else Answered)"

text \<open>The questions the source checks before a given one, in its order.\<close>

fun questionsBefore :: "question \<Rightarrow> question list" where
  "questionsBefore Financial = []"
| "questionsBefore LegalRegulatory = [Financial]"
| "questionsBefore DataIntegrity = [Financial, LegalRegulatory]"
| "questionsBefore PatientSafety = [Financial, LegalRegulatory, DataIntegrity]"
| "questionsBefore CyberSecurity = [Financial, LegalRegulatory, DataIntegrity, PatientSafety]"

definition answeredBefore :: "question \<Rightarrow> string \<Rightarrow> bool" where
  "answeredBefore q descriptionBody =
     list_all (\<lambda>p. questionVerdict p descriptionBody = Answered) (questionsBefore q)"

text \<open>The two failing results of the completeness audit.\<close>

definition mismatchResult :: "issue \<Rightarrow> question \<Rightarrow> auditdetails" where
  "mismatchResult issue q =
     AuditDetails ''Hazard Analysis Completed'' issue (Some False) (Some (mismatchDetails q)) []"

definition unansweredResult :: "issue \<Rightarrow> question \<Rightarrow> auditdetails" where
  "unansweredResult issue q =
     AuditDetails ''Hazard Analysis Completed'' issue (Some False) (Some (unansweredDetails q)) []"

definition isPost :: "call \<Rightarrow> bool" where
  "isPost c = (case c of PostIssueAuditFailureComment i a b \<Rightarrow> True | _ \<Rightarrow> False)"

declare allMatches.simps [simp del] replaceAll.simps [simp del]

subsection \<open>Descriptions\<close>

text \<open>Two texts are equal up to the case of their letters.\<close>

definition ciEq :: "string \<Rightarrow> string \<Rightarrow> bool" where
  "ciEq a b = (map canonicalize a = map canonicalize b)"









text \<open>
  A description cut at one question whose answer is a placeholder: the text before the
  question's header, the header, an asterisk of bold markup or nothing, white space, the
  placeholder, what stands between it and the next header, the next header, the rest.
\<close>

record layout =
  before :: string
  header :: string
  bold :: string
  lead :: string
  placeholder :: string
  trail :: string
  nextHeader :: string
  after :: string

definition assemble :: "layout \<Rightarrow> string" where
  "assemble L =
     before L @ header L @ bold L @ lead L @ placeholder L @ trail L @ nextHeader L @ after L"



text \<open>
  The canonical code unit of a character as a number; the matcher's literal comparison
  is computed with it.
\<close>

definition caseFold :: "char \<Rightarrow> nat" where
  "caseFold c = (let n = of_char c in if 97 \<le> n \<and> n \<le> 122 then n - 32 else n)"

subsection \<open>Runs\<close>

text \<open>No asynchronous collaborator call fails.\<close>

definition noRejections :: "collaborators \<Rightarrow> bool" where
  "noRejections env = (\<forall>c. \<not> rejects env c)"

text \<open>
  The run of an issue gets as far as the link check of its sub-task: the issue is not
  grandfathered, not ignored by label, has the sub-task, and the sub-task was not closed
  as no work needed.
\<close>

definition reachesLinkCheck :: "collaborators \<Rightarrow> issue \<Rightarrow> issue \<Rightarrow> bool" where
  "reachesLinkCheck env issue subTask =
     (\<not> resolvedBeforeCutoff issue
      \<and> \<not> issueContainsAnyLabel env issue [IGNORE_HAZARD_ANALYSIS env]
      \<and> getSubTaskByName env issue (HAZARD_ANALYSIS env) = Some subTask
      \<and> \<not> issueHasNoWorkNeededResolution env subTask)"

text \<open>The passing existence audit, and the aggregate that holds it.\<close>

definition subTaskPresent :: "issue \<Rightarrow> auditdetails" where
  "subTaskPresent issue =
     AuditDetails ''Issue Requires A Hazard Analysis Sub-Task'' issue (Some True)
       (Some ''Hazard Analysis sub-task is required and present'') []"

definition auditStart :: "issue \<Rightarrow> issue \<Rightarrow> auditdetails" where
  "auditStart issue subTask =
     addAuditResults [subTaskPresent issue]
       (newAuditDetails ''Hazard Analysis Sub-Task Audit'' subTask)"

text \<open>The calls of a run before the link check.\<close>

definition callsBeforeLinkCheck :: "issue \<Rightarrow> issue \<Rightarrow> call list" where
  "callsBeforeLinkCheck issue subTask =
     [RemoveIssueAuditFailureComment issue (subTaskPresent issue),
      RemoveIssueAuditFailureComment subTask
        (newAuditDetails ''Hazard Analysis No Work Needed Resolution Validation'' subTask)]"

text \<open>A failure comment that carries the combined audit of a linked sub-task.\<close>

definition isLinkedPost :: "call \<Rightarrow> bool" where
  "isLinkedPost c =
     (case c of
        PostIssueAuditFailureComment i a b \<Rightarrow>
          auditName a = ''Linked Hazard Analysis Sub-Task Audit''
      | _ \<Rightarrow> False)"

text \<open>Both the pass flag and the detail text of a result were assigned.\<close>

definition bothAssigned :: "auditdetails \<Rightarrow> bool" where
  "bothAssigned a = (auditPassing a \<noteq> None \<and> auditDetails a \<noteq> None)"




text \<open>The five questions in the source's order, and the passing result of the audit.\<close>

definition allQuestions :: "question list" where
  "allQuestions = [Financial, LegalRegulatory, DataIntegrity, PatientSafety, CyberSecurity]"

definition completedResult :: "issue \<Rightarrow> auditdetails" where
  "completedResult issue =
     AuditDetails ''Hazard Analysis Completed'' issue (Some True)
       (Some ''Hazard analysis has been completed for this sub-task.'') []"

text \<open>The call that publishes the combined audit of a linked sub-task.\<close>

definition linkedCall :: "collaborators \<Rightarrow> issue \<Rightarrow> auditdetails list \<Rightarrow> call" where
  "linkedCall env subTask allAuditResults =
     (if list_all isPassing allAuditResults
      then RemoveIssueAuditFailureComment subTask (linkedAudit env subTask allAuditResults)
      else PostIssueAuditFailureComment subTask (linkedAudit env subTask allAuditResults) True)"

text \<open>Whenever the run resolves, its value satisfies \<open>P\<close>.\<close>

definition resolvesWith :: "('a \<Rightarrow> bool) \<Rightarrow> 'a run \<Rightarrow> bool" where
  "resolvesWith P m = (case fst m of Resolved a \<Rightarrow> P a | Unsettled \<Rightarrow> True)"

section \<open>An example tracker\<close>

text \<open>
  Concrete issues and collaborators, on which the theorems are instantiated.
\<close>

definition exampleStory :: "string \<Rightarrow> issue" where
  "exampleStory k =
     \<lparr> key = k, resolutiondate = DateTime 1577836800000, resolution = Some ''Done'',
       description = None, issuelinks = [] \<rparr>"

definition exampleLink :: "string \<Rightarrow> issuelink" where
  "exampleLink k = \<lparr> linkTypeName = ''Hazard Analysis'', linkTarget = k \<rparr>"

definition exampleSubTask :: "string \<Rightarrow> issuelink list \<Rightarrow> issue" where
  "exampleSubTask r links =
     \<lparr> key = ''HA-1'', resolutiondate = DateTime 1577836800000, resolution = Some r,
       description = Some [], issuelinks = links \<rparr>"

definition exampleTarget :: issue where
  "exampleTarget =
     \<lparr> key = ''HA-9'', resolutiondate = DateTime 1577836800000, resolution = Some ''Done'',
       description = Some [], issuelinks = [] \<rparr>"

definition exampleEnv :: "issue option \<Rightarrow> collaborators" where
  "exampleEnv subTask =
     \<lparr> HAZARD_ANALYSIS = ''Hazard Analysis'',
       IGNORE_HAZARD_ANALYSIS = ''ignore-hazard-analysis'',
       DEFAULT_SUBTASK_FIELDS = [''description'', ''issuelinks'', ''resolution''],
       getSubTaskByName = (\<lambda>i n. if n = ''Hazard Analysis'' \<and> key i \<noteq> ''HA-1'' then subTask else None),
       issueContainsAnyLabel = (\<lambda>i ls. key i = ''STORY-IGNORED''),
       issueHasNoWorkNeededResolution = (\<lambda>i. resolution i = Some ''No Work Needed''),
       isSubtaskLinkOfType = (\<lambda>l n. linkTypeName l = n),
       getIssueFromLink = (\<lambda>l fs. exampleTarget),
       findPlusOneComments = (\<lambda>i. []),
       generateAuditCommentText = (\<lambda>a. auditName a @ '': '' @ detailText a),
       subTaskClosed = (\<lambda>i. AuditDetails ''Sub-Task Closed'' i (Some True) (Some ''closed'') []),
       isAssigneeIndicated =
         (\<lambda>i. AuditDetails ''Assignee Indicated'' i (Some True) (Some ''assigned'') []),
       rejects = (\<lambda>c. False) \<rparr>"

text \<open>
  Example descriptions. In \<open>exampleLayout\<close> the five headers are there, in bold
  markup, the Legal/Regulatory answer is a placeholder and a signature block closes the
  text; in \<open>exampleSigned\<close> the placeholder is the answer of the last question, before
  the signature block; in \<open>exampleWithoutLegal\<close> and \<open>exampleWithoutData\<close> one header
  was removed from a description whose five questions were answered, and so in
  \<open>exampleDataMentioned\<close>, where the Legal/Regulatory answer mentions the removed header's
  name. In \<open>exampleRepeated\<close> the Data Integrity answer is a placeholder and the answer
  before it quotes that header; in \<open>exampleBoldLast\<close> the headers are in bold markup and
  the answer of the last question is a placeholder.
\<close>

definition exampleLayout :: layout where
  "exampleLayout =
     \<lparr> before = ''*Financial:* No\<newline>*'', header = ''Legal/Regulatory:'', bold = ''*'',
       lead = '' '', placeholder = ''<Yes/No>'', trail = ''\<newline>*'',
       nextHeader = ''Data Integrity'',
       after = '':* No\<newline>*Patient Safety:* No\<newline>*CyberSecurity/Information Security:* No\<newline>*Engineer:* Ann'' \<rparr>"

definition exampleSigned :: string where
  "exampleSigned =
     ''Financial: No\<newline>Legal/Regulatory: No\<newline>Data Integrity: No\<newline>Patient Safety: No\<newline>CyberSecurity/Information Security: <yes/no>\<newline>*Engineer:* Ann''"


definition exampleWithoutData :: string where
  "exampleWithoutData =
     ''Financial: No\<newline>Legal/Regulatory: No\<newline>No\<newline>Patient Safety: No\<newline>CyberSecurity/Information Security: No''"



definition exampleBoldLast :: string where
  "exampleBoldLast =
     ''*Financial:* No\<newline>*Legal/Regulatory:* No\<newline>*Data Integrity:* No\<newline>*Patient Safety:* No\<newline>*CyberSecurity/Information Security:* <yes/no>''"

definition exampleWith :: "string \<Rightarrow> issue" where
  "exampleWith d =
     \<lparr> key = ''HA-2'', resolutiondate = DateTime 1577836800000, resolution = Some ''Done'',
       description = Some d, issuelinks = [] \<rparr>"

section \<open>The matcher on the template's patterns\<close>

lemma ciPrefix_Nil [simp]: "ciPrefix [] s"
  by (simp add: ciPrefix_def)

lemma ciPrefix_Nil2 [simp]: "ciPrefix l [] = (l = [])"
  by (auto simp: ciPrefix_def)

lemma ciPrefix_Cons:
  "ciPrefix (a # l) s =
     (case s of [] \<Rightarrow> False | x # xs \<Rightarrow> canonicalize x = canonicalize a \<and> ciPrefix l xs)"
  by (cases s) (auto simp: ciPrefix_def)

lemma ciPrefix_length: "ciPrefix l s \<Longrightarrow> length l \<le> length s"
  by (simp add: ciPrefix_def)









lemma notWord_gt [simp]: "\<not> isWordChar CHR ''>''"
  by (simp add: isWordChar_def)







lemma matchSeq_Lit_fail: "\<not> ciPrefix S u \<Longrightarrow> matchSeq (Lit S # r) u = None"
  by simp



















lemma space_not_word: "isSpace c \<Longrightarrow> \<not> isWordChar c"
  by (auto simp: isSpace_def isWordChar_def Let_def)













lemma of_char_canonicalize:
  "(of_char (canonicalize c) :: nat) =
     (let n = of_char c in if 97 \<le> n \<and> n \<le> 122 then n - 32 else n)"
  by (auto simp: canonicalize_def Let_def)








































section \<open>The completeness audit, block by block\<close>

lemma bnd_Resolved: "bnd (Resolved a, t) f = (case f a of (r, t') \<Rightarrow> (r, t @ t'))"
  by (simp add: bnd_def)

lemma bnd_Unsettled: "bnd (Unsettled, t) f = (Unsettled, t)"
  by (simp add: bnd_def)

lemma bnd_ret: "bnd (ret a) f = f a"
  by (simp add: bnd_def ret_def split: prod.splits)

lemma bnd_fire: "bnd (fire c) f = (case f () of (r, t) \<Rightarrow> (r, c # t))"
  by (simp add: bnd_def fire_def)

lemma await_accepted: "\<not> rejects env c \<Longrightarrow> await env c v = (Resolved v, [c])"
  by (simp add: await_def)

lemma checkQuestion_Mismatch:
  "questionVerdict q d = Mismatch \<Longrightarrow>
   checkQuestion env issue (newAuditDetails ''Hazard Analysis Completed'' issue) d q k =
     (Resolved (mismatchResult issue q), [MatchDescription issue q])"
  by (simp add: checkQuestion_def questionVerdict_def bnd_fire ret_def mismatchResult_def
      newAuditDetails_def split: option.splits if_splits)

lemma checkQuestion_Unanswered:
  "questionVerdict q d = Unanswered \<Longrightarrow>
   checkQuestion env issue (newAuditDetails ''Hazard Analysis Completed'' issue) d q k =
     (case await env (PostIssueAuditFailureComment issue (unansweredResult issue q) True)
             (unansweredResult issue q) of
        (r, t) \<Rightarrow> (r, MatchDescription issue q # t))"
  by (auto simp: checkQuestion_def questionVerdict_def bnd_fire unansweredResult_def
      newAuditDetails_def Let_def split: option.splits if_splits)

lemma checkQuestion_Answered:
  "questionVerdict q d = Answered \<Longrightarrow>
   checkQuestion env issue a d q k = (case k of (r, t) \<Rightarrow> (r, MatchDescription issue q # t))"
  by (simp add: checkQuestion_def questionVerdict_def bnd_fire split: option.splits if_splits)

lemma hazardAnalysisComplete_Mismatch:
  assumes "description issue = Some d" "answeredBefore q d" "questionVerdict q d = Mismatch"
  shows "hazardAnalysisComplete env issue =
           (Resolved (mismatchResult issue q),
            map (MatchDescription issue) (questionsBefore q @ [q]))"
  using assms
  by (cases q)
     (simp_all add: hazardAnalysisComplete_def answeredBefore_def checkQuestion_Answered
        checkQuestion_Mismatch)

lemma hazardAnalysisComplete_Unanswered:
  assumes "description issue = Some d" "answeredBefore q d" "questionVerdict q d = Unanswered"
    "\<not> rejects env (PostIssueAuditFailureComment issue (unansweredResult issue q) True)"
  shows "hazardAnalysisComplete env issue =
           (Resolved (unansweredResult issue q),
            map (MatchDescription issue) (questionsBefore q @ [q])
            @ [PostIssueAuditFailureComment issue (unansweredResult issue q) True])"
  using assms
  by (cases q)
     (simp_all add: hazardAnalysisComplete_def answeredBefore_def checkQuestion_Answered
        checkQuestion_Unanswered await_accepted)

lemma hazardAnalysisComplete_Answered:
  assumes "description issue = Some d"
    and "list_all (\<lambda>q. questionVerdict q d = Answered) allQuestions"
    and "\<not> rejects env (RemoveIssueAuditFailureComment issue (completedResult issue))"
  shows "hazardAnalysisComplete env issue =
           (Resolved (completedResult issue),
            map (MatchDescription issue) allQuestions
            @ [RemoveIssueAuditFailureComment issue (completedResult issue)])"
  using assms
  by (simp add: hazardAnalysisComplete_def allQuestions_def checkQuestion_Answered
      await_accepted completedResult_def newAuditDetails_def Let_def)

section \<open>Evaluating the literal comparison\<close>

lemma caseFold_canonicalize: "caseFold c = of_char (canonicalize c)"
  by (simp add: caseFold_def of_char_canonicalize)

lemma ciPrefix_code [code]:
  "ciPrefix [] s = True"
  "ciPrefix (a # l) [] = False"
  "ciPrefix (a # l) (x # xs) = (if caseFold x = caseFold a then ciPrefix l xs else False)"
  by (simp_all add: ciPrefix_Cons caseFold_canonicalize)

lemma ciEq_code [code]: "ciEq a b = (map caseFold a = map caseFold b)"
proof -
  have fold: "caseFold = (of_char :: char \<Rightarrow> nat) \<circ> canonicalize"
    by (rule ext) (simp add: caseFold_canonicalize)
  have inj: "inj (of_char :: char \<Rightarrow> nat)" by (rule injI) simp
  have "(map caseFold a = map caseFold b) =
        (map (of_char :: char \<Rightarrow> nat) (map canonicalize a) = map of_char (map canonicalize b))"
    by (simp add: fold)
  also have "\<dots> = (map canonicalize a = map canonicalize b)"
    using inj by (rule inj_map_eq_map)
  finally show ?thesis by (simp add: ciEq_def)
qed

section \<open>The claims\<close>

lemma exampleEnv_noRejections: "noRejections (exampleEnv s)"
  by (simp add: noRejections_def exampleEnv_def)

text \<open>
  C6. An issue whose resolution date is before April 22nd, 2019 gets a passing result
  with the explanatory text, whatever its other fields and whatever the collaborators
  answer, and the run makes no call.
\<close>

theorem grandfathered_issue_passes:
  assumes "timeValue (resolutiondate issue) = Some t" and "t < cutoffTime"
  shows "\<exists>a. runHazardAnalysisAudits env issue = (Resolved a, [])
             \<and> auditPassing a = Some True \<and> isPassing a
             \<and> auditDetails a = Some grandfatheredDetails"
proof -
  from assms have "resolvedBeforeCutoff issue" by (simp add: resolvedBeforeCutoff_def)
  then show ?thesis
    by (simp add: runHazardAnalysisAudits_def ret_def newAuditDetails_def isPassing_def Let_def)
qed

theorem grandfathered_issue_passes_witness:
  "timeValue (resolutiondate (exampleStory ''STORY-OLD'' \<lparr>resolutiondate := DateTime 1546300800000\<rparr>))
     = Some 1546300800000
   \<and> (1546300800000 :: int) < cutoffTime
   \<and> (\<exists>a. runHazardAnalysisAudits (exampleEnv None)
             (exampleStory ''STORY-OLD'' \<lparr>resolutiondate := DateTime 1546300800000\<rparr>)
           = (Resolved a, [])
          \<and> auditPassing a = Some True \<and> isPassing a
          \<and> auditDetails a = Some grandfatheredDetails)"
proof -
  have h1: "timeValue (resolutiondate (exampleStory ''STORY-OLD'' \<lparr>resolutiondate := DateTime 1546300800000\<rparr>))
              = Some 1546300800000"
    by (simp add: exampleStory_def)
  have h2: "(1546300800000 :: int) < cutoffTime" by (simp add: cutoffTime_def)
  from grandfathered_issue_passes[OF h1 h2, of "exampleEnv None"] h1 h2 show ?thesis by blast
qed

lemma awaits: "noRejections env \<Longrightarrow> await env c v = (Resolved v, [c])"
  by (simp add: noRejections_def await_def)

text \<open>
  C7. An issue that is neither grandfathered nor ignored by label and has no Hazard
  Analysis sub-task gets a failing aggregate whose one member carries the guidance text
  with the link to the template; the only call of the run is the failure comment on the
  issue, so no assignee, completeness or review audit runs.
\<close>

theorem missing_subtask_fails:
  assumes "\<not> resolvedBeforeCutoff issue"
    and "\<not> issueContainsAnyLabel env issue [IGNORE_HAZARD_ANALYSIS env]"
    and "getSubTaskByName env issue (HAZARD_ANALYSIS env) = None"
    and "noRejections env"
  shows "\<exists>a details.
           runHazardAnalysisAudits env issue =
             (Resolved details, [PostIssueAuditFailureComment issue a False])
           \<and> \<not> isPassing details \<and> auditResults details = [a] \<and> \<not> isPassing a
           \<and> auditDetails a =
               Some (''A Hazard Analysis sub-task is required for all stories; please clone Jira stories from the [Story and Defect template|''
                     @ templateLink @ ''].'')"
  using assms
  by (simp add: runHazardAnalysisAudits_def issueHasHazardAnalysisSubTask_def awaits
      bnd_Resolved ret_def newAuditDetails_def isPassing_def subTaskRequiredDetails_def Let_def)

theorem missing_subtask_fails_witness:
  "\<not> resolvedBeforeCutoff (exampleStory ''STORY-1'')
   \<and> \<not> issueContainsAnyLabel (exampleEnv None) (exampleStory ''STORY-1'')
         [IGNORE_HAZARD_ANALYSIS (exampleEnv None)]
   \<and> getSubTaskByName (exampleEnv None) (exampleStory ''STORY-1'')
        (HAZARD_ANALYSIS (exampleEnv None)) = None
   \<and> noRejections (exampleEnv None)
   \<and> (\<exists>a details.
         runHazardAnalysisAudits (exampleEnv None) (exampleStory ''STORY-1'') =
           (Resolved details, [PostIssueAuditFailureComment (exampleStory ''STORY-1'') a False])
         \<and> \<not> isPassing details \<and> auditResults details = [a] \<and> \<not> isPassing a
         \<and> auditDetails a =
             Some (''A Hazard Analysis sub-task is required for all stories; please clone Jira stories from the [Story and Defect template|''
                   @ templateLink @ ''].''))"
proof -
  have h1: "\<not> resolvedBeforeCutoff (exampleStory ''STORY-1'')"
    by (simp add: resolvedBeforeCutoff_def exampleStory_def cutoffTime_def)
  have h2: "\<not> issueContainsAnyLabel (exampleEnv None) (exampleStory ''STORY-1'')
               [IGNORE_HAZARD_ANALYSIS (exampleEnv None)]"
    by (simp add: exampleEnv_def exampleStory_def)
  have h3: "getSubTaskByName (exampleEnv None) (exampleStory ''STORY-1'')
              (HAZARD_ANALYSIS (exampleEnv None)) = None"
    by (simp add: exampleEnv_def)
  have h4: "noRejections (exampleEnv None)" by (rule exampleEnv_noRejections)
  from missing_subtask_fails[OF h1 h2 h3 h4] h1 h2 h3 h4 show ?thesis by blast
qed

text \<open>
  C5. The validator resolves with null exactly when the sub-task has no no-work-needed
  resolution; otherwise it resolves with a result that passes exactly when the parent
  issue has such a resolution too. (Where both have one, the text names the two
  resolutions, which are then not null.)
\<close>

theorem noWorkNeeded_validation:
  assumes "noRejections env"
    and "issueHasNoWorkNeededResolution env subTask \<and> issueHasNoWorkNeededResolution env parentIssue
         \<longrightarrow> resolution subTask \<noteq> None \<and> resolution parentIssue \<noteq> None"
  shows "\<exists>r t. isNoWorkNeededResolutionValid env parentIssue subTask = (Resolved r, t)
               \<and> (r = None) = (\<not> issueHasNoWorkNeededResolution env subTask)
               \<and> (case r of
                     None \<Rightarrow> True
                   | Some a \<Rightarrow> isPassing a = issueHasNoWorkNeededResolution env parentIssue)"
  using assms
  by (auto simp: isNoWorkNeededResolutionValid_def awaits newAuditDetails_def isPassing_def
      Let_def)


theorem noWorkNeeded_validation_witness:
  "noRejections (exampleEnv None)
   \<and> (\<exists>t. isNoWorkNeededResolutionValid (exampleEnv None) (exampleStory ''STORY-1'')
             (exampleSubTask ''Done'' []) = (Resolved None, t))
   \<and> (\<exists>a t. isNoWorkNeededResolutionValid (exampleEnv None)
               (exampleStory ''STORY-1'' \<lparr>resolution := Some ''No Work Needed''\<rparr>)
               (exampleSubTask ''No Work Needed'' []) = (Resolved (Some a), t) \<and> isPassing a)
   \<and> (\<exists>a t. isNoWorkNeededResolutionValid (exampleEnv None) (exampleStory ''STORY-1'')
               (exampleSubTask ''No Work Needed'' []) = (Resolved (Some a), t) \<and> \<not> isPassing a)"
proof -
  let ?env = "exampleEnv None"
  have n: "noRejections ?env" by (rule exampleEnv_noRejections)
  have r: "resolution (exampleSubTask x []) \<noteq> None" "resolution (exampleStory ''STORY-1'') \<noteq> None"
    "resolution (exampleStory ''STORY-1'' \<lparr>resolution := Some ''No Work Needed''\<rparr>) \<noteq> None" for x
    by (simp_all add: exampleSubTask_def exampleStory_def)
  have a: "\<not> issueHasNoWorkNeededResolution ?env (exampleSubTask ''Done'' [])"
    and b: "issueHasNoWorkNeededResolution ?env (exampleSubTask ''No Work Needed'' [])"
    and c: "issueHasNoWorkNeededResolution ?env
              (exampleStory ''STORY-1'' \<lparr>resolution := Some ''No Work Needed''\<rparr>)"
    and d: "\<not> issueHasNoWorkNeededResolution ?env (exampleStory ''STORY-1'')"
    by (simp_all add: exampleEnv_def exampleSubTask_def exampleStory_def)
  from noWorkNeeded_validation[OF n, of "exampleSubTask ''Done'' []" "exampleStory ''STORY-1''"] a r
  have 1: "\<exists>t. isNoWorkNeededResolutionValid ?env (exampleStory ''STORY-1'')
             (exampleSubTask ''Done'' []) = (Resolved None, t)"
    by auto
  from noWorkNeeded_validation[OF n, of "exampleSubTask ''No Work Needed'' []"
      "exampleStory ''STORY-1'' \<lparr>resolution := Some ''No Work Needed''\<rparr>"] b c r
  have 2: "\<exists>a t. isNoWorkNeededResolutionValid ?env
               (exampleStory ''STORY-1'' \<lparr>resolution := Some ''No Work Needed''\<rparr>)
               (exampleSubTask ''No Work Needed'' []) = (Resolved (Some a), t) \<and> isPassing a"
    by (auto split: option.splits)
  from noWorkNeeded_validation[OF n, of "exampleSubTask ''No Work Needed'' []"
      "exampleStory ''STORY-1''"] b d r
  have 3: "\<exists>a t. isNoWorkNeededResolutionValid ?env (exampleStory ''STORY-1'')
               (exampleSubTask ''No Work Needed'' []) = (Resolved (Some a), t) \<and> \<not> isPassing a"
    by (auto split: option.splits)
  from n 1 2 3 show ?thesis by blast
qed

lemma subTaskPresent_passing [simp]: "isPassing (subTaskPresent issue)"
  by (simp add: subTaskPresent_def isPassing_def)

lemma isPassing_addAuditResults:
  "isPassing (addAuditResults new a) = list_all isPassing (auditResults a @ new)"
  by (cases a) (simp add: isPassing_def)

lemma auditResults_addAuditResults [simp]:
  "auditResults (addAuditResults new a) = auditResults a @ new"
  by (cases a) simp

lemma run_to_auditSubTask:
  assumes "reachesLinkCheck env issue subTask" and "noRejections env"
  shows "runHazardAnalysisAudits env issue =
           (case auditSubTask env subTask (auditStart issue subTask) of
              (r, t) \<Rightarrow> (r, callsBeforeLinkCheck issue subTask @ t))"
  using assms
  by (simp add: reachesLinkCheck_def runHazardAnalysisAudits_def
      issueHasHazardAnalysisSubTask_def isNoWorkNeededResolutionValid_def awaits bnd_Resolved
      newAuditDetails_def subTaskPresent_def auditStart_def callsBeforeLinkCheck_def
      isPassing_def Let_def split: prod.splits)

lemma setters_name [simp]:
  "auditName (setPassing b a) = auditName a" "auditName (setDetails t a) = auditName a"
  "auditName (newAuditDetails n i) = n"
  by (cases a; simp add: newAuditDetails_def)+

lemma checkQuestion_resolves:
  assumes "noRejections env" and "auditName a0 = ''Hazard Analysis Completed''"
    and "\<exists>a t. k = (Resolved a, t) \<and> filter isLinkedPost t = []"
  shows "\<exists>a t. checkQuestion env issue a0 d q k = (Resolved a, t) \<and> filter isLinkedPost t = []"
  using assms
  by (auto simp: checkQuestion_def bnd_fire ret_def awaits isLinkedPost_def Let_def
      split: option.splits)

lemma hazardAnalysisComplete_resolves:
  assumes "description issue = Some d" and "noRejections env"
  shows "\<exists>a t. hazardAnalysisComplete env issue = (Resolved a, t) \<and> filter isLinkedPost t = []"
proof -
  let ?a = "newAuditDetails ''Hazard Analysis Completed'' issue"
  have n: "auditName ?a = ''Hazard Analysis Completed''" by simp
  have "\<exists>a t. await env
                 (RemoveIssueAuditFailureComment issue
                    (setPassing True
                       (setDetails ''Hazard analysis has been completed for this sub-task.'' ?a)))
                 (setPassing True
                    (setDetails ''Hazard analysis has been completed for this sub-task.'' ?a))
               = (Resolved a, t) \<and> filter isLinkedPost t = []"
    using assms(2) by (simp add: awaits isLinkedPost_def)
  from checkQuestion_resolves[OF assms(2) n this]
  have "\<exists>a t. checkQuestion env issue ?a d CyberSecurity
                 (await env
                    (RemoveIssueAuditFailureComment issue
                       (setPassing True
                          (setDetails ''Hazard analysis has been completed for this sub-task.'' ?a)))
                    (setPassing True
                       (setDetails ''Hazard analysis has been completed for this sub-task.'' ?a)))
               = (Resolved a, t) \<and> filter isLinkedPost t = []" .
  from checkQuestion_resolves[OF assms(2) n this]
  have "\<exists>a t. checkQuestion env issue ?a d PatientSafety
                 (checkQuestion env issue ?a d CyberSecurity
                   (await env
                      (RemoveIssueAuditFailureComment issue
                         (setPassing True
                            (setDetails ''Hazard analysis has been completed for this sub-task.'' ?a)))
                      (setPassing True
                         (setDetails ''Hazard analysis has been completed for this sub-task.'' ?a))))
               = (Resolved a, t) \<and> filter isLinkedPost t = []" .
  from checkQuestion_resolves[OF assms(2) n this, of issue d DataIntegrity]
       checkQuestion_resolves[OF assms(2) n, of _ issue d LegalRegulatory]
       checkQuestion_resolves[OF assms(2) n, of _ issue d Financial]
  show ?thesis
    using assms(1) by (simp add: hazardAnalysisComplete_def Let_def)
qed

lemma hazardAnalysisReviewed_resolves:
  assumes "noRejections env"
  shows "\<exists>a t. hazardAnalysisReviewed env issue = (Resolved a, t) \<and> filter isLinkedPost t = []"
  using assms by (simp add: hazardAnalysisReviewed_def awaits isLinkedPost_def Let_def)

lemma linkedAudit_name [simp]:
  "auditName (linkedAudit env subTask rs) = ''Linked Hazard Analysis Sub-Task Audit''"
  by (simp add: linkedAudit_def Let_def)

lemma auditSubTask_linked:
  "subTaskLinks env subTask \<noteq> [] \<Longrightarrow> auditSubTask env subTask details = (Unsettled, [])"
  by (cases "subTaskLinks env subTask")
     (simp_all add: auditSubTask_def issueHasOneSubTaskLink_def bnd_Unsettled)

lemma link_branch_run:
  assumes "reachesLinkCheck env issue subTask" and "subTaskLinks env subTask \<noteq> []"
  shows "runHazardAnalysisAudits env issue =
           (Unsettled,
            if rejects env (RemoveIssueAuditFailureComment issue (subTaskPresent issue))
            then take 1 (callsBeforeLinkCheck issue subTask)
            else callsBeforeLinkCheck issue subTask)"
  using assms
  by (simp add: reachesLinkCheck_def runHazardAnalysisAudits_def
      issueHasHazardAnalysisSubTask_def isNoWorkNeededResolutionValid_def await_def bnd_def
      auditSubTask_linked newAuditDetails_def subTaskPresent_def callsBeforeLinkCheck_def
      isPassing_def Let_def)

lemma link_branch_unsettled:
  assumes "reachesLinkCheck env issue subTask" and "subTaskLinks env subTask \<noteq> []"
  shows "fst (runHazardAnalysisAudits env issue) = Unsettled"
    and "set (snd (runHazardAnalysisAudits env issue)) \<subseteq> set (callsBeforeLinkCheck issue subTask)"
    and "noRejections env \<Longrightarrow>
         snd (runHazardAnalysisAudits env issue) = callsBeforeLinkCheck issue subTask"
  unfolding link_branch_run[OF assms]
  by (auto simp: noRejections_def dest: in_set_takeD)

lemma linkedCall_not_before:
  "linkedCall env subTask allAuditResults \<notin> set (callsBeforeLinkCheck issue subTask)"
proof
  assume "linkedCall env subTask allAuditResults \<in> set (callsBeforeLinkCheck issue subTask)"
  then have "auditName (linkedAudit env subTask allAuditResults) =
               ''Issue Requires A Hazard Analysis Sub-Task''
             \<or> auditName (linkedAudit env subTask allAuditResults) =
               ''Hazard Analysis No Work Needed Resolution Validation''"
    by (auto simp: linkedCall_def callsBeforeLinkCheck_def subTaskPresent_def newAuditDetails_def
        split: if_splits dest: arg_cong[where f = auditName])
  then show False by simp
qed

text \<open>
  The code of lines 99 to 127 by itself: the combined audit passes exactly when every
  collected result passes, and its failing text is an introductory sentence and a quoted
  block that holds the rendered text of every failing result, each followed by a blank
  line.
\<close>

lemma linkedAudit_combines:
  "isPassing (linkedAudit env subTask allAuditResults) = list_all isPassing allAuditResults"
  "\<not> list_all isPassing allAuditResults \<Longrightarrow>
   auditDetails (linkedAudit env subTask allAuditResults) =
     Some (''The audit details below are currently failing for the linked sub-task and transitively causing this sub-task audit failure:\<newline>\<newline>{quote}''
           @ ''\<newline>\<newline>''
           @ concat (map (\<lambda>audit. generateAuditCommentText env audit @ ''\<newline>\<newline>'')
                       (filter (\<lambda>audit. \<not> isPassing audit) allAuditResults))
           @ ''{quote}'')"
  by (simp_all add: linkedAudit_def newAuditDetails_def isPassing_def linkedFailingDetails_def
      auditComment_def Let_def)

lemma example_reaches:
  "reachesLinkCheck (exampleEnv (Some (exampleSubTask ''Done'' links))) (exampleStory ''STORY-1'')
     (exampleSubTask ''Done'' links)"
  by (simp add: reachesLinkCheck_def resolvedBeforeCutoff_def cutoffTime_def exampleEnv_def
      exampleStory_def exampleSubTask_def)

lemma example_links:
  "subTaskLinks (exampleEnv s) (exampleSubTask ''Done'' (map exampleLink ks)) = map exampleLink ks"
  by (induction ks) (simp_all add: subTaskLinks_def exampleEnv_def exampleSubTask_def exampleLink_def)

text \<open>
  C3, as stated, fails by a slip of the code. With exactly one link to a Hazard
  Analysis sub-task the run reads \<open>issueHasOneSubTaskLink\<close> at line 67 and never settles:
  the link's target is not fetched, no assignee or completeness audit runs on it, and no
  combined audit is posted; the calls of the run are among those made before the link
  check, and they are exactly those when no call rejects.
\<close>

theorem delegated_run_never_settles:
  assumes "reachesLinkCheck env issue subTask" and "subTaskLinks env subTask = [link]"
  shows "fst (runHazardAnalysisAudits env issue) = Unsettled
         \<and> GetIssueFromLink link (DEFAULT_SUBTASK_FIELDS env)
             \<notin> set (snd (runHazardAnalysisAudits env issue))
         \<and> IsAssigneeIndicated (getIssueFromLink env link (DEFAULT_SUBTASK_FIELDS env))
             \<notin> set (snd (runHazardAnalysisAudits env issue))
         \<and> (\<forall>q. MatchDescription (getIssueFromLink env link (DEFAULT_SUBTASK_FIELDS env)) q
                  \<notin> set (snd (runHazardAnalysisAudits env issue)))
         \<and> filter isLinkedPost (snd (runHazardAnalysisAudits env issue)) = []
         \<and> (noRejections env \<longrightarrow>
              snd (runHazardAnalysisAudits env issue) = callsBeforeLinkCheck issue subTask)"
proof -
  from assms(2) have l: "subTaskLinks env subTask \<noteq> []" by simp
  note u = link_branch_unsettled[OF assms(1) l]
  have quiet: "c \<notin> set (snd (runHazardAnalysisAudits env issue))"
    if "c \<notin> set (callsBeforeLinkCheck issue subTask)" for c
    using u(2) that by blast
  have "filter isLinkedPost (callsBeforeLinkCheck issue subTask) = []"
    by (simp add: callsBeforeLinkCheck_def isLinkedPost_def)
  then have "\<forall>c \<in> set (callsBeforeLinkCheck issue subTask). \<not> isLinkedPost c"
    by (simp add: filter_empty_conv)
  with u(2) have "\<forall>c \<in> set (snd (runHazardAnalysisAudits env issue)). \<not> isLinkedPost c"
    by blast
  then have "filter isLinkedPost (snd (runHazardAnalysisAudits env issue)) = []"
    by (simp add: filter_empty_conv)
  with u(1,3) quiet show ?thesis by (simp add: callsBeforeLinkCheck_def)
qed

theorem delegated_run_never_settles_witness:
  "reachesLinkCheck (exampleEnv (Some (exampleSubTask ''Done'' [exampleLink ''HA-9''])))
     (exampleStory ''STORY-1'') (exampleSubTask ''Done'' [exampleLink ''HA-9''])
   \<and> subTaskLinks (exampleEnv (Some (exampleSubTask ''Done'' [exampleLink ''HA-9''])))
        (exampleSubTask ''Done'' [exampleLink ''HA-9'']) = [exampleLink ''HA-9'']
   \<and> noRejections (exampleEnv (Some (exampleSubTask ''Done'' [exampleLink ''HA-9''])))
   \<and> runHazardAnalysisAudits (exampleEnv (Some (exampleSubTask ''Done'' [exampleLink ''HA-9''])))
        (exampleStory ''STORY-1'') =
       (Unsettled,
        [RemoveIssueAuditFailureComment (exampleStory ''STORY-1'')
           (subTaskPresent (exampleStory ''STORY-1'')),
         RemoveIssueAuditFailureComment (exampleSubTask ''Done'' [exampleLink ''HA-9''])
           (newAuditDetails ''Hazard Analysis No Work Needed Resolution Validation''
              (exampleSubTask ''Done'' [exampleLink ''HA-9'']))])"
proof -
  let ?st = "exampleSubTask ''Done'' [exampleLink ''HA-9'']"
  let ?env = "exampleEnv (Some ?st)"
  have h1: "reachesLinkCheck ?env (exampleStory ''STORY-1'') ?st" by (rule example_reaches)
  have h2: "subTaskLinks ?env ?st = [exampleLink ''HA-9'']"
    using example_links[of "Some ?st" "[''HA-9'']"] by simp
  have n: "noRejections ?env" by (rule exampleEnv_noRejections)
  from delegated_run_never_settles[OF h1 h2] n
  have "fst (runHazardAnalysisAudits ?env (exampleStory ''STORY-1'')) = Unsettled"
    and "snd (runHazardAnalysisAudits ?env (exampleStory ''STORY-1'')) =
           callsBeforeLinkCheck (exampleStory ''STORY-1'') ?st"
    by blast+
  then have "runHazardAnalysisAudits ?env (exampleStory ''STORY-1'') =
               (Unsettled, callsBeforeLinkCheck (exampleStory ''STORY-1'') ?st)"
    by (simp add: prod_eq_iff)
  with h1 h2 n show ?thesis by (simp add: callsBeforeLinkCheck_def)
qed

text \<open>
  C4, as stated, fails by a slip of the code. With two or more links to Hazard
  Analysis sub-tasks the run reads \<open>issueHasOneSubTaskLink\<close> at line 67 and never settles:
  no aggregate is returned and none is handed to \<open>handlePassFailAuditResults\<close>. The link
  target is indeed never fetched and no later audit runs; the calls of the run are among
  those made before the link check, and they are exactly those when no call rejects.
\<close>

theorem ambiguous_links_never_settle:
  assumes "reachesLinkCheck env issue subTask" and "2 \<le> length (subTaskLinks env subTask)"
  shows "fst (runHazardAnalysisAudits env issue) = Unsettled
         \<and> (\<forall>details. HandlePassFailAuditResults subTask details
                  \<notin> set (snd (runHazardAnalysisAudits env issue)))
         \<and> (\<forall>l fields. GetIssueFromLink l fields \<notin> set (snd (runHazardAnalysisAudits env issue)))
         \<and> (noRejections env \<longrightarrow>
              snd (runHazardAnalysisAudits env issue) = callsBeforeLinkCheck issue subTask)"
proof -
  from assms(2) have l: "subTaskLinks env subTask \<noteq> []" by auto
  note u = link_branch_unsettled[OF assms(1) l]
  have quiet: "c \<notin> set (snd (runHazardAnalysisAudits env issue))"
    if "c \<notin> set (callsBeforeLinkCheck issue subTask)" for c
    using u(2) that by blast
  from u(1,3) quiet show ?thesis by (simp add: callsBeforeLinkCheck_def)
qed

theorem ambiguous_links_never_settle_witness:
  "reachesLinkCheck
     (exampleEnv (Some (exampleSubTask ''Done'' [exampleLink ''HA-8'', exampleLink ''HA-9''])))
     (exampleStory ''STORY-1'')
     (exampleSubTask ''Done'' [exampleLink ''HA-8'', exampleLink ''HA-9''])
   \<and> length (subTaskLinks
        (exampleEnv (Some (exampleSubTask ''Done'' [exampleLink ''HA-8'', exampleLink ''HA-9''])))
        (exampleSubTask ''Done'' [exampleLink ''HA-8'', exampleLink ''HA-9''])) = 2
   \<and> noRejections
        (exampleEnv (Some (exampleSubTask ''Done'' [exampleLink ''HA-8'', exampleLink ''HA-9''])))
   \<and> runHazardAnalysisAudits
        (exampleEnv (Some (exampleSubTask ''Done'' [exampleLink ''HA-8'', exampleLink ''HA-9''])))
        (exampleStory ''STORY-1'') =
       (Unsettled,
        [RemoveIssueAuditFailureComment (exampleStory ''STORY-1'')
           (subTaskPresent (exampleStory ''STORY-1'')),
         RemoveIssueAuditFailureComment
           (exampleSubTask ''Done'' [exampleLink ''HA-8'', exampleLink ''HA-9''])
           (newAuditDetails ''Hazard Analysis No Work Needed Resolution Validation''
              (exampleSubTask ''Done'' [exampleLink ''HA-8'', exampleLink ''HA-9'']))])"
proof -
  let ?st = "exampleSubTask ''Done'' [exampleLink ''HA-8'', exampleLink ''HA-9'']"
  let ?env = "exampleEnv (Some ?st)"
  have h1: "reachesLinkCheck ?env (exampleStory ''STORY-1'') ?st" by (rule example_reaches)
  have len: "length (subTaskLinks ?env ?st) = 2"
    using example_links[of "Some ?st" "[''HA-8'', ''HA-9'']"] by simp
  then have h2: "2 \<le> length (subTaskLinks ?env ?st)" by simp
  have n: "noRejections ?env" by (rule exampleEnv_noRejections)
  from ambiguous_links_never_settle[OF h1 h2] n
  have "fst (runHazardAnalysisAudits ?env (exampleStory ''STORY-1'')) = Unsettled"
    and "snd (runHazardAnalysisAudits ?env (exampleStory ''STORY-1'')) =
           callsBeforeLinkCheck (exampleStory ''STORY-1'') ?st"
    by blast+
  then have "runHazardAnalysisAudits ?env (exampleStory ''STORY-1'') =
               (Unsettled, callsBeforeLinkCheck (exampleStory ''STORY-1'') ?st)"
    by (simp add: prod_eq_iff)
  with h1 len n show ?thesis by (simp add: callsBeforeLinkCheck_def)
qed

text \<open>
  C8, as stated, fails by a slip of the code. A run whose sub-task has a link to a
  Hazard Analysis sub-task reads \<open>issueHasOneSubTaskLink\<close> at line 67 and never settles,
  so it never gets to lines 99 to 127: no combined audit is built, none is posted or
  cleared, whatever results the audits of the target would give, and no aggregate is
  handed over.
\<close>

theorem combined_audit_never_built:
  assumes "reachesLinkCheck env issue subTask" and "subTaskLinks env subTask \<noteq> []"
  shows "fst (runHazardAnalysisAudits env issue) = Unsettled
         \<and> (\<forall>allAuditResults. linkedCall env subTask allAuditResults
                  \<notin> set (snd (runHazardAnalysisAudits env issue)))
         \<and> (\<forall>details. HandlePassFailAuditResults subTask details
                  \<notin> set (snd (runHazardAnalysisAudits env issue)))"
proof -
  note u = link_branch_unsettled[OF assms]
  have quiet: "c \<notin> set (snd (runHazardAnalysisAudits env issue))"
    if "c \<notin> set (callsBeforeLinkCheck issue subTask)" for c
    using u(2) that by blast
  have "HandlePassFailAuditResults subTask details \<notin> set (callsBeforeLinkCheck issue subTask)"
    for details
    by (simp add: callsBeforeLinkCheck_def)
  with u(1) quiet linkedCall_not_before show ?thesis by blast
qed

theorem combined_audit_never_built_witness:
  "reachesLinkCheck (exampleEnv (Some (exampleSubTask ''Done'' [exampleLink ''HA-9''])))
     (exampleStory ''STORY-1'') (exampleSubTask ''Done'' [exampleLink ''HA-9''])
   \<and> subTaskLinks (exampleEnv (Some (exampleSubTask ''Done'' [exampleLink ''HA-9''])))
        (exampleSubTask ''Done'' [exampleLink ''HA-9'']) \<noteq> []
   \<and> fst (runHazardAnalysisAudits
            (exampleEnv (Some (exampleSubTask ''Done'' [exampleLink ''HA-9''])))
            (exampleStory ''STORY-1'')) = Unsettled
   \<and> linkedCall (exampleEnv (Some (exampleSubTask ''Done'' [exampleLink ''HA-9''])))
        (exampleSubTask ''Done'' [exampleLink ''HA-9''])
        [mismatchResult exampleTarget Financial]
       \<notin> set (snd (runHazardAnalysisAudits
                    (exampleEnv (Some (exampleSubTask ''Done'' [exampleLink ''HA-9''])))
                    (exampleStory ''STORY-1'')))"
proof -
  let ?st = "exampleSubTask ''Done'' [exampleLink ''HA-9'']"
  let ?env = "exampleEnv (Some ?st)"
  have h1: "reachesLinkCheck ?env (exampleStory ''STORY-1'') ?st" by (rule example_reaches)
  have h2: "subTaskLinks ?env ?st \<noteq> []"
    using example_links[of "Some ?st" "[''HA-9'']"] by simp
  from combined_audit_never_built[OF h1 h2] h1 h2 show ?thesis by blast
qed

lemma resolvesWith_ret [simp]: "resolvesWith P (ret a) = P a"
  by (simp add: resolvesWith_def ret_def)

lemma resolvesWith_Unsettled [simp]: "resolvesWith P (Unsettled, t)"
  by (simp add: resolvesWith_def)

lemma resolvesWith_Resolved [simp]: "resolvesWith P (Resolved a, t) = P a"
  by (simp add: resolvesWith_def)

lemma resolvesWith_await: "P v \<Longrightarrow> resolvesWith P (await env c v)"
  by (simp add: resolvesWith_def await_def)

lemma resolvesWith_bnd:
  assumes "\<And>a. resolvesWith P (f a)"
  shows "resolvesWith P (bnd m f)"
proof (cases m)
  case (Pair r t)
  show ?thesis
  proof (cases r)
    case (Resolved a)
    obtain r' t' where f: "f a = (r', t')" by (cases "f a")
    from assms[of a] f have "resolvesWith P (r', t @ t')" by (simp add: resolvesWith_def)
    with Pair Resolved f show ?thesis by (simp add: bnd_def)
  next
    case Unsettled
    with Pair show ?thesis by (simp add: bnd_def)
  qed
qed

lemma bothAssigned_set [simp]: "bothAssigned (setPassing b (setDetails t a))"
  "bothAssigned (setDetails t (setPassing b a))"
  by (cases a; simp add: bothAssigned_def)+

lemma bothAssigned_add [simp]: "bothAssigned (addAuditResults new a)"
  by (cases a) (simp add: bothAssigned_def)

lemma complete_bothAssigned: "resolvesWith bothAssigned (hazardAnalysisComplete env issue)"
  by (auto simp: hazardAnalysisComplete_def checkQuestion_def Let_def
      intro!: resolvesWith_bnd resolvesWith_await split: option.splits)

lemma reviewed_bothAssigned: "resolvesWith bothAssigned (hazardAnalysisReviewed env issue)"
  by (auto simp: hazardAnalysisReviewed_def Let_def intro!: resolvesWith_await)

lemma exists_bothAssigned: "resolvesWith bothAssigned (issueHasHazardAnalysisSubTask env issue)"
  by (auto simp: issueHasHazardAnalysisSubTask_def Let_def intro!: resolvesWith_await
      split: option.splits)

lemma noWork_bothAssigned:
  "resolvesWith (\<lambda>r. case r of None \<Rightarrow> True | Some a \<Rightarrow> bothAssigned a)
     (isNoWorkNeededResolutionValid env parentIssue subTask)"
  by (auto simp: isNoWorkNeededResolutionValid_def Let_def intro!: resolvesWith_await
      split: option.splits)

lemma auditSubTask_bothAssigned:
  "resolvesWith bothAssigned (auditSubTask env subTask details)"
  by (auto simp: auditSubTask_def finishLinked_def finishDirect_def Let_def
      intro!: resolvesWith_bnd resolvesWith_await split: list.splits)

lemma run_bothAssigned:
  assumes "resolvedBeforeCutoff issue \<or> \<not> issueContainsAnyLabel env issue [IGNORE_HAZARD_ANALYSIS env]"
  shows "resolvesWith bothAssigned (runHazardAnalysisAudits env issue)"
  using assms
  by (auto simp: runHazardAnalysisAudits_def Let_def auditSubTask_bothAssigned
      intro!: resolvesWith_bnd resolvesWith_await split: option.splits)

lemma cleanse_details_only:
  "resolvesWith (\<lambda>a. auditDetails a \<noteq> None \<and> auditPassing a = None)
     (cleanseSubTaskAudits env issue)"
  by (auto simp: cleanseSubTaskAudits_def newAuditDetails_def Let_def
      intro!: resolvesWith_await split: option.splits)

lemma ignored_details_only:
  assumes "\<not> resolvedBeforeCutoff issue" "issueContainsAnyLabel env issue [IGNORE_HAZARD_ANALYSIS env]"
  shows "resolvesWith (\<lambda>a. auditDetails a = Some ''Audit ignored'' \<and> auditPassing a = None)
           (runHazardAnalysisAudits env issue)"
  using assms
  by (auto simp: runHazardAnalysisAudits_def newAuditDetails_def Let_def
      intro!: resolvesWith_bnd split: option.splits)


lemma example_ignored_run:
  "runHazardAnalysisAudits (exampleEnv None) (exampleStory ''STORY-IGNORED'') =
     (Resolved (AuditDetails ''Hazard Analysis Sub-Task Audit'' (exampleStory ''STORY-IGNORED'')
                  None (Some ''Audit ignored'') []),
      [RemoveIssueAuditFailureCommentByName (exampleStory ''STORY-IGNORED'')
         ''Issue Requires A Hazard Analysis Sub-Task''])"
  by (simp add: runHazardAnalysisAudits_def cleanseSubTaskAudits_def resolvedBeforeCutoff_def
      cutoffTime_def exampleEnv_def exampleStory_def await_def bnd_Resolved ret_def
      newAuditDetails_def Let_def)

lemma example_cleanse:
  "cleanseSubTaskAudits (exampleEnv None) (exampleStory ''STORY-IGNORED'') =
     (Resolved (AuditDetails ''Hazard Analysis Sub-Task Cleanse'' (exampleStory ''STORY-IGNORED'')
                  None (Some ''All audit comments and labels will be removed from this sub-task'') []),
      [RemoveIssueAuditFailureCommentByName (exampleStory ''STORY-IGNORED'')
         ''Issue Requires A Hazard Analysis Sub-Task''])"
  by (simp add: cleanseSubTaskAudits_def exampleEnv_def exampleStory_def await_def
      newAuditDetails_def Let_def)

text \<open>
  C9, as stated, fails: the run of an issue that carries the ignore label resolves with
  a result whose text was assigned and whose pass flag never was, and so does
  \<open>cleanseSubTaskAudits\<close>.
\<close>

theorem flag_and_text_counterexample:
  "fst (runHazardAnalysisAudits (exampleEnv None) (exampleStory ''STORY-IGNORED'')) =
     Resolved (AuditDetails ''Hazard Analysis Sub-Task Audit'' (exampleStory ''STORY-IGNORED'')
                 None (Some ''Audit ignored'') [])
   \<and> fst (cleanseSubTaskAudits (exampleEnv None) (exampleStory ''STORY-IGNORED'')) =
       Resolved (AuditDetails ''Hazard Analysis Sub-Task Cleanse'' (exampleStory ''STORY-IGNORED'')
                   None (Some ''All audit comments and labels will be removed from this sub-task'') [])
   \<and> \<not> bothAssigned
         (AuditDetails ''Hazard Analysis Sub-Task Audit'' (exampleStory ''STORY-IGNORED'')
            None (Some ''Audit ignored'') [])
   \<and> \<not> bothAssigned
         (AuditDetails ''Hazard Analysis Sub-Task Cleanse'' (exampleStory ''STORY-IGNORED'')
            None (Some ''All audit comments and labels will be removed from this sub-task'') [])"
  by (simp add: example_ignored_run example_cleanse bothAssigned_def)

text \<open>
  C9, amended. Whenever they resolve with a result, \<open>issueHasHazardAnalysisSubTask\<close>,
  \<open>isNoWorkNeededResolutionValid\<close> (when its value is not null), \<open>hazardAnalysisComplete\<close>,
  \<open>hazardAnalysisReviewed\<close> and \<open>runHazardAnalysisAudits\<close> outside its ignore-label
  branch give a result with both the pass flag and the detail text assigned. The
  ignore-label branch of \<open>runHazardAnalysisAudits\<close> and \<open>cleanseSubTaskAudits\<close> assign
  the detail text only and leave the pass flag as the constructor made it.
\<close>

theorem flag_and_text_assignment:
  "resolvesWith bothAssigned (issueHasHazardAnalysisSubTask env issue)
   \<and> resolvesWith (\<lambda>r. case r of None \<Rightarrow> True | Some a \<Rightarrow> bothAssigned a)
        (isNoWorkNeededResolutionValid env parentIssue subTask)
   \<and> resolvesWith bothAssigned (hazardAnalysisComplete env target)
   \<and> resolvesWith bothAssigned (hazardAnalysisReviewed env target)
   \<and> (resolvedBeforeCutoff story \<or> \<not> issueContainsAnyLabel env story [IGNORE_HAZARD_ANALYSIS env]
        \<longrightarrow> resolvesWith bothAssigned (runHazardAnalysisAudits env story))
   \<and> (\<not> resolvedBeforeCutoff ignored \<and> issueContainsAnyLabel env ignored [IGNORE_HAZARD_ANALYSIS env]
        \<longrightarrow> resolvesWith (\<lambda>a. auditDetails a = Some ''Audit ignored'' \<and> auditPassing a = None)
              (runHazardAnalysisAudits env ignored))
   \<and> resolvesWith (\<lambda>a. auditDetails a \<noteq> None \<and> auditPassing a = None)
        (cleanseSubTaskAudits env ignored)"
  using exists_bothAssigned noWork_bothAssigned complete_bothAssigned reviewed_bothAssigned
    run_bothAssigned ignored_details_only cleanse_details_only
  by blast

theorem flag_and_text_assignment_witness:
  "(\<exists>a t. issueHasHazardAnalysisSubTask (exampleEnv None) (exampleStory ''STORY-1'') = (Resolved a, t)
          \<and> bothAssigned a)
   \<and> (\<exists>a t. isNoWorkNeededResolutionValid (exampleEnv None) (exampleStory ''STORY-1'')
               (exampleSubTask ''No Work Needed'' []) = (Resolved (Some a), t) \<and> bothAssigned a)
   \<and> (\<exists>a t. hazardAnalysisComplete (exampleEnv None) exampleTarget = (Resolved a, t) \<and> bothAssigned a)
   \<and> (\<exists>a t. hazardAnalysisReviewed (exampleEnv None) exampleTarget = (Resolved a, t) \<and> bothAssigned a)
   \<and> \<not> issueContainsAnyLabel (exampleEnv None) (exampleStory ''STORY-1'')
         [IGNORE_HAZARD_ANALYSIS (exampleEnv None)]
   \<and> (\<exists>a t. runHazardAnalysisAudits (exampleEnv None) (exampleStory ''STORY-1'') = (Resolved a, t)
          \<and> bothAssigned a)
   \<and> \<not> resolvedBeforeCutoff (exampleStory ''STORY-IGNORED'')
   \<and> issueContainsAnyLabel (exampleEnv None) (exampleStory ''STORY-IGNORED'')
         [IGNORE_HAZARD_ANALYSIS (exampleEnv None)]
   \<and> (\<exists>a t. runHazardAnalysisAudits (exampleEnv None) (exampleStory ''STORY-IGNORED'') = (Resolved a, t)
          \<and> auditDetails a = Some ''Audit ignored'' \<and> auditPassing a = None)
   \<and> (\<exists>a t. cleanseSubTaskAudits (exampleEnv None) (exampleStory ''STORY-IGNORED'') = (Resolved a, t)
          \<and> auditDetails a \<noteq> None \<and> auditPassing a = None)"
proof -
  let ?env = "exampleEnv None"
  let ?story = "exampleStory ''STORY-1''"
  let ?ign = "exampleStory ''STORY-IGNORED''"
  let ?nwn = "exampleSubTask ''No Work Needed'' []"
  note inst = flag_and_text_assignment[of ?env ?story ?story ?nwn exampleTarget ?story ?ign]
  have n: "noRejections ?env" by (rule exampleEnv_noRejections)
  have r1: "\<exists>a t. issueHasHazardAnalysisSubTask ?env ?story = (Resolved a, t)"
    by (simp add: issueHasHazardAnalysisSubTask_def awaits[OF n] Let_def split: option.splits)
  have r2: "\<exists>a t. isNoWorkNeededResolutionValid ?env ?story ?nwn = (Resolved (Some a), t)"
    by (simp add: isNoWorkNeededResolutionValid_def await_def Let_def exampleEnv_def
        exampleStory_def exampleSubTask_def)
  have r3: "\<exists>a t. hazardAnalysisComplete ?env exampleTarget = (Resolved a, t)"
    using hazardAnalysisComplete_resolves[OF _ n, of exampleTarget "[]"]
    by (auto simp: exampleTarget_def)
  have r4: "\<exists>a t. hazardAnalysisReviewed ?env exampleTarget = (Resolved a, t)"
    using hazardAnalysisReviewed_resolves[OF n] by blast
  have h5: "\<not> issueContainsAnyLabel ?env ?story [IGNORE_HAZARD_ANALYSIS ?env]"
    by (simp add: exampleEnv_def exampleStory_def)
  have r5: "\<exists>a t. runHazardAnalysisAudits ?env ?story = (Resolved a, t)"
    by (simp add: runHazardAnalysisAudits_def issueHasHazardAnalysisSubTask_def await_def
        bnd_Resolved ret_def newAuditDetails_def isPassing_def Let_def resolvedBeforeCutoff_def
        cutoffTime_def exampleEnv_def exampleStory_def)
  have h6: "\<not> resolvedBeforeCutoff ?ign"
    by (simp add: resolvedBeforeCutoff_def cutoffTime_def exampleStory_def)
  have h7: "issueContainsAnyLabel ?env ?ign [IGNORE_HAZARD_ANALYSIS ?env]"
    by (simp add: exampleEnv_def exampleStory_def)
  have r6: "\<exists>a t. runHazardAnalysisAudits ?env ?ign = (Resolved a, t)"
    by (simp add: example_ignored_run)
  have r7: "\<exists>a t. cleanseSubTaskAudits ?env ?ign = (Resolved a, t)"
    by (simp add: example_cleanse)
  from inst r1 have c1: "\<exists>a t. issueHasHazardAnalysisSubTask ?env ?story = (Resolved a, t) \<and> bothAssigned a"
    by (auto simp: resolvesWith_def)
  from inst r2 have c2: "\<exists>a t. isNoWorkNeededResolutionValid ?env ?story ?nwn = (Resolved (Some a), t)
                         \<and> bothAssigned a"
    by (auto simp: resolvesWith_def)
  from inst r3 have c3: "\<exists>a t. hazardAnalysisComplete ?env exampleTarget = (Resolved a, t) \<and> bothAssigned a"
    by (auto simp: resolvesWith_def)
  from inst r4 have c4: "\<exists>a t. hazardAnalysisReviewed ?env exampleTarget = (Resolved a, t) \<and> bothAssigned a"
    by (auto simp: resolvesWith_def)
  from inst r5 h5 have c5: "\<exists>a t. runHazardAnalysisAudits ?env ?story = (Resolved a, t) \<and> bothAssigned a"
    by (auto simp: resolvesWith_def)
  from inst r6 h6 h7 have c6: "\<exists>a t. runHazardAnalysisAudits ?env ?ign = (Resolved a, t)
                         \<and> auditDetails a = Some ''Audit ignored'' \<and> auditPassing a = None"
    by (auto simp: resolvesWith_def)
  from inst r7 have c7: "\<exists>a t. cleanseSubTaskAudits ?env ?ign = (Resolved a, t)
                         \<and> auditDetails a \<noteq> None \<and> auditPassing a = None"
    by (auto simp: resolvesWith_def)
  from c1 c2 c3 c4 h5 c5 h6 h7 c6 c7 show ?thesis by blast
qed

lemma matches_no_post [simp]: "filter isPost (map (MatchDescription issue) qs) = []"
  by (induction qs) (simp_all add: isPost_def)

lemma failing_results [simp]:
  "\<not> isPassing (mismatchResult issue q)" "\<not> isPassing (unansweredResult issue q)"
  by (simp_all add: mismatchResult_def unansweredResult_def isPassing_def)

text \<open>
  C10. When the pattern of the first question that is not answered does not match, the
  completeness audit resolves with the template-mismatch result and the run posts no
  failure comment; when that question is matched and left unanswered, the audit resolves
  with the must-be-answered result after posting it as a failure comment on the audited
  issue, which is the last call and the only comment.
\<close>

theorem failure_kinds_side_effects:
  assumes "description issue = Some d" and "answeredBefore q d" and "noRejections env"
  shows "(questionVerdict q d = Mismatch \<longrightarrow>
            fst (hazardAnalysisComplete env issue) = Resolved (mismatchResult issue q)
            \<and> \<not> isPassing (mismatchResult issue q)
            \<and> filter isPost (snd (hazardAnalysisComplete env issue)) = [])
       \<and> (questionVerdict q d = Unanswered \<longrightarrow>
            fst (hazardAnalysisComplete env issue) = Resolved (unansweredResult issue q)
            \<and> \<not> isPassing (unansweredResult issue q)
            \<and> filter isPost (snd (hazardAnalysisComplete env issue)) =
                [PostIssueAuditFailureComment issue (unansweredResult issue q) True]
            \<and> last (snd (hazardAnalysisComplete env issue)) =
                PostIssueAuditFailureComment issue (unansweredResult issue q) True)"
proof -
  have r: "\<not> rejects env (PostIssueAuditFailureComment issue (unansweredResult issue q) True)"
    using assms(3) by (simp add: noRejections_def)
  show ?thesis
    using hazardAnalysisComplete_Mismatch[OF assms(1,2), of env]
      hazardAnalysisComplete_Unanswered[OF assms(1,2) _ r]
    by (auto simp: isPost_def)
qed

lemma example_financial_answered_1: "questionVerdict Financial (assemble exampleLayout) = Answered"
  by code_simp

lemma example_legal_unanswered: "questionVerdict LegalRegulatory (assemble exampleLayout) = Unanswered"
  by code_simp

lemma example_financial_answered_2: "questionVerdict Financial exampleWithoutData = Answered"
  by code_simp

lemma example_legal_mismatch: "questionVerdict LegalRegulatory exampleWithoutData = Mismatch"
  by code_simp

theorem failure_kinds_side_effects_witness:
  "description (exampleWith exampleWithoutData) = Some exampleWithoutData
   \<and> answeredBefore LegalRegulatory exampleWithoutData
   \<and> noRejections (exampleEnv None)
   \<and> questionVerdict LegalRegulatory exampleWithoutData = Mismatch
   \<and> fst (hazardAnalysisComplete (exampleEnv None) (exampleWith exampleWithoutData)) =
       Resolved (mismatchResult (exampleWith exampleWithoutData) LegalRegulatory)
   \<and> filter isPost (snd (hazardAnalysisComplete (exampleEnv None) (exampleWith exampleWithoutData))) = []
   \<and> description (exampleWith (assemble exampleLayout)) = Some (assemble exampleLayout)
   \<and> answeredBefore LegalRegulatory (assemble exampleLayout)
   \<and> questionVerdict LegalRegulatory (assemble exampleLayout) = Unanswered
   \<and> fst (hazardAnalysisComplete (exampleEnv None) (exampleWith (assemble exampleLayout))) =
       Resolved (unansweredResult (exampleWith (assemble exampleLayout)) LegalRegulatory)
   \<and> filter isPost (snd (hazardAnalysisComplete (exampleEnv None) (exampleWith (assemble exampleLayout)))) =
       [PostIssueAuditFailureComment (exampleWith (assemble exampleLayout))
          (unansweredResult (exampleWith (assemble exampleLayout)) LegalRegulatory) True]
   \<and> last (snd (hazardAnalysisComplete (exampleEnv None) (exampleWith (assemble exampleLayout)))) =
       PostIssueAuditFailureComment (exampleWith (assemble exampleLayout))
         (unansweredResult (exampleWith (assemble exampleLayout)) LegalRegulatory) True"
proof -
  let ?env = "exampleEnv None"
  have n: "noRejections ?env" by (rule exampleEnv_noRejections)
  have d1: "description (exampleWith exampleWithoutData) = Some exampleWithoutData"
    and d2: "description (exampleWith (assemble exampleLayout)) = Some (assemble exampleLayout)"
    by (simp_all add: exampleWith_def)
  have a1: "answeredBefore LegalRegulatory exampleWithoutData"
    by (simp add: answeredBefore_def example_financial_answered_2)
  have a2: "answeredBefore LegalRegulatory (assemble exampleLayout)"
    by (simp add: answeredBefore_def example_financial_answered_1)
  from failure_kinds_side_effects[OF d1 a1 n] failure_kinds_side_effects[OF d2 a2 n]
    example_legal_mismatch example_legal_unanswered d1 d2 a1 a2 n
  show ?thesis by simp
qed


















text \<open>
  The last question, evaluated: a placeholder before the signature block is reported as
  unanswered. With an asterisk after the colon of the last header the asterisk itself is
  read as the answer, since the last pattern has no optional asterisk there.
\<close>

lemma example_signed_unanswered: "questionVerdict CyberSecurity exampleSigned = Unanswered"
  by code_simp

lemma example_signed_before: "answeredBefore CyberSecurity exampleSigned"
  by code_simp

lemma example_bold_last_header:
  "questionVerdict CyberSecurity ''CyberSecurity/Information Security:* <yes/no>'' = Answered"
  by code_simp

text \<open>
  So a description in the template's bold markup whose last answer is an untouched
  placeholder passes the audit; the patterns of the first four questions take the
  asterisk with the header.
\<close>

lemma example_bold_last_verdicts:
  "questionVerdict Financial exampleBoldLast = Answered"
  "questionVerdict LegalRegulatory exampleBoldLast = Answered"
  "questionVerdict DataIntegrity exampleBoldLast = Answered"
  "questionVerdict PatientSafety exampleBoldLast = Answered"
  "questionVerdict CyberSecurity exampleBoldLast = Answered"
  by code_simp+

lemma example_bold_last_run:
  "hazardAnalysisComplete (exampleEnv None) (exampleWith exampleBoldLast) =
     (Resolved (completedResult (exampleWith exampleBoldLast)),
      map (MatchDescription (exampleWith exampleBoldLast)) allQuestions
      @ [RemoveIssueAuditFailureComment (exampleWith exampleBoldLast)
           (completedResult (exampleWith exampleBoldLast))])"
proof -
  have d: "description (exampleWith exampleBoldLast) = Some exampleBoldLast"
    by (simp add: exampleWith_def)
  have v: "list_all (\<lambda>q. questionVerdict q exampleBoldLast = Answered) allQuestions"
    by (simp add: allQuestions_def example_bold_last_verdicts)
  have r: "\<not> rejects (exampleEnv None)
               (RemoveIssueAuditFailureComment (exampleWith exampleBoldLast)
                  (completedResult (exampleWith exampleBoldLast)))"
    by (simp add: exampleEnv_def)
  show ?thesis using d v r by (rule hazardAnalysisComplete_Answered)
qed


end
